theory Spec2Isabelle
  imports Complex_Main "HOL-Library.List_Lexorder" "HOL-Library.Char_ord"
begin

section \<open>JavaScript values\<close>

text \<open>
  The backend is JavaScript. An optional value (\<open>undefined\<close> or \<open>null\<close>) is \<open>None\<close>;
  strings are \<open>string\<close>, the bytes of their UTF-8 encoding (a character beyond ASCII is
  two or three bytes), compared bytewise (the order SQLite's \<open>MAX\<close> uses on a TEXT
  column); the numbers of the analytics (\<open>duration\<close>) are exact rationals, which is what
  the doubles of the code are on the small integers every concrete input below uses.

  \<open>x || null\<close> and \<open>x ? a : b\<close> test truthiness: a string is falsy when it is empty,
  a number when it is zero.
\<close>

definition truthy_str :: "string option \<Rightarrow> bool" where
  "truthy_str x = (case x of None \<Rightarrow> False | Some s \<Rightarrow> s \<noteq> [])"

definition truthy_num :: "rat option \<Rightarrow> bool" where
  "truthy_num x = (case x of None \<Rightarrow> False | Some d \<Rightarrow> d \<noteq> 0)"

definition or_null :: "string option \<Rightarrow> string option" where
  \<comment> \<open>\<open>x || null\<close> on an optional string\<close>
  "or_null x = (if truthy_str x then x else None)"

definition num_or_null :: "rat option \<Rightarrow> rat option" where
  \<comment> \<open>\<open>x || null\<close> on an optional number\<close>
  "num_or_null x = (if truthy_num x then x else None)"

definition or_default :: "string option \<Rightarrow> string \<Rightarrow> string" where
  \<comment> \<open>\<open>x || 'default'\<close>\<close>
  "or_default x d = (case x of None \<Rightarrow> d | Some s \<Rightarrow> if s = [] then d else s)"

fun split_on :: "char \<Rightarrow> string \<Rightarrow> string list" where
  \<comment> \<open>\<open>s.split(c)\<close> for a one-character separator: \<open>''''.split(' ')\<close> is \<open>['''']\<close>\<close>
  "split_on c [] = [[]]"
| "split_on c (x # xs) =
     (if x = c then [] # split_on c xs
      else (case split_on c xs of
              [] \<Rightarrow> [[x]]
            | w # ws \<Rightarrow> (x # w) # ws))"

definition nth_opt :: "'a list \<Rightarrow> nat \<Rightarrow> 'a option" where
  \<comment> \<open>\<open>xs[i]\<close>: \<open>undefined\<close> out of range\<close>
  "nth_opt xs i = (if i < length xs then Some (xs ! i) else None)"

fun replace_first :: "string \<Rightarrow> string \<Rightarrow> string \<Rightarrow> string" where
  \<comment> \<open>\<open>s.replace(pat, rep)\<close> with a string pattern: the first occurrence only\<close>
  "replace_first pat rep [] = (if pat = [] then rep else [])"
| "replace_first pat rep (c # cs) =
     (if take (length pat) (c # cs) = pat then rep @ drop (length pat) (c # cs)
      else c # replace_first pat rep cs)"

section \<open>Errors and the error handler (middleware/errorHandler.js)\<close>

datatype error_details =
    ValidationErrors "string list"    \<comment> \<open>\<open>errors.array()\<close> of express-validator\<close>
  | ExpiresAtDetail string            \<comment> \<open>\<open>{ expiresAt: content.expiresAt }\<close>\<close>

text \<open>
  A thrown JavaScript error object, with the properties the handlers read. A plain
  \<open>new Error(msg)\<close> has the name \<open>Error\<close> and no status code; \<open>AppError\<close> extends
  \<open>Error\<close> without renaming it.
\<close>

record js_error =
  name :: string
  message :: string
  statusCode :: "nat option"
  details :: "error_details option"
  code :: "string option"

definition Error :: "string \<Rightarrow> js_error" where
  "Error msg = \<lparr>name = ''Error'', message = msg, statusCode = None, details = None, code = None\<rparr>"

definition AppError :: "string \<Rightarrow> nat \<Rightarrow> error_details option \<Rightarrow> js_error" where
  "AppError msg status det =
     \<lparr>name = ''Error'', message = msg, statusCode = Some status, details = det, code = None\<rparr>"

record response =
  status :: nat
  error :: string
  body_message :: string
  body_details :: "error_details option"

definition getErrorName :: "nat \<Rightarrow> string" where
  "getErrorName sc =
     (if sc = 400 then ''Bad Request''
      else if sc = 401 then ''Unauthorized''
      else if sc = 403 then ''Forbidden''
      else if sc = 404 then ''Not Found''
      else if sc = 409 then ''Conflict''
      else if sc = 422 then ''Unprocessable Entity''
      else if sc = 429 then ''Too Many Requests''
      else if sc = 500 then ''Internal Server Error''
      else if sc = 502 then ''Bad Gateway''
      else if sc = 503 then ''Service Unavailable''
      else ''Error'')"

definition errorHandler :: "bool \<Rightarrow> js_error \<Rightarrow> response" where
  \<comment> \<open>the flag is \<open>process.env.NODE_ENV === 'production'\<close>; the stack, timestamp and path of
     the body are left out\<close>
  "errorHandler production err =
     (let statusCode0 = (case statusCode err of None \<Rightarrow> 500 | Some n \<Rightarrow> if n = 0 then 500 else n);
          message0 = (if message err = [] then ''Internal Server Error'' else message err);
          details0 = details err;
          hide = (production \<and> statusCode0 = 500);
          message1 = (if hide then ''An unexpected error occurred'' else message0);
          details1 = (if hide then None else details0);
          (sc, msg, det) =
            (if name err = ''ValidationError'' then (400, ''Validation Error'', details err)
             else if name err = ''JsonWebTokenError'' then (401, ''Invalid authentication token'', details1)
             else if name err = ''TokenExpiredError'' then (401, ''Authentication token expired'', details1)
             else if name err = ''UnauthorizedError'' then (401, ''Unauthorized access'', details1)
             else if code err = Some ''SQLITE_CONSTRAINT'' \<or> code err = Some ''23505''
               then (409, ''Resource conflict (duplicate entry)'', details1)
             else (statusCode0, message1, details1))
      in \<lparr>status = sc, error = getErrorName sc, body_message = msg, body_details = det\<rparr>)"

section \<open>Storage facade: adapter selection (database/index.js)\<close>

datatype adapter = sqliteAdapter | firebaseAdapter | postgresAdapter

datatype init_error = SqliteOpenError | FirebaseConfigError | PostgresNotImplemented

definition select_adapter :: "string option \<Rightarrow> adapter" where
  \<comment> \<open>the \<open>switch (dbType)\<close> of \<open>initialize\<close>, on \<open>process.env.DATABASE_TYPE || 'sqlite'\<close>\<close>
  "select_adapter env_DATABASE_TYPE =
     (let dbType = or_default env_DATABASE_TYPE ''sqlite''
      in if dbType = ''firebase'' then firebaseAdapter
         else if dbType = ''postgres'' then postgresAdapter
         else sqliteAdapter)"

definition adapter_initialize :: "bool \<Rightarrow> adapter \<Rightarrow> init_error option" where
  \<comment> \<open>each adapter's own \<open>initialize\<close>; the flag says whether the backend can be reached
     (the database file opens, the Firebase credentials are accepted). The PostgreSQL
     placeholder throws whatever the environment.\<close>
  "adapter_initialize reachable a =
     (case a of
        sqliteAdapter \<Rightarrow> (if reachable then None else Some SqliteOpenError)
      | firebaseAdapter \<Rightarrow> (if reachable then None else Some FirebaseConfigError)
      | postgresAdapter \<Rightarrow> Some PostgresNotImplemented)"

definition initialize :: "string option \<Rightarrow> bool \<Rightarrow> adapter \<times> init_error option" where
  \<comment> \<open>the facade's \<open>initialize\<close>: the module variable \<open>currentAdapter\<close> after the switch,
     and the outcome of awaiting the adapter's \<open>initialize\<close>\<close>
  "initialize env_DATABASE_TYPE reachable =
     (let currentAdapter = select_adapter env_DATABASE_TYPE
      in (currentAdapter, adapter_initialize reachable currentAdapter))"

section \<open>Auth gate (middleware/auth.js)\<close>

datatype 'u verify_result =
    Verified 'u
  | VerifyError string    \<comment> \<open>\<open>err.name\<close> of the error \<open>jwt.verify\<close> hands to the callback\<close>

definition bearer_token :: "string option \<Rightarrow> string option" where
  \<comment> \<open>\<open>authHeader && authHeader.split(' ')[1]\<close>\<close>
  "bearer_token authHeader =
     (case authHeader of
        None \<Rightarrow> None
      | Some h \<Rightarrow> if h = [] then Some [] else nth_opt (split_on CHR '' '' h) 1)"

definition authenticateToken :: "(string \<Rightarrow> 'u verify_result) \<Rightarrow> string option \<Rightarrow> js_error + 'u" where
  \<comment> \<open>\<open>jwt_verify\<close> is \<open>jwt.verify(token, process.env.ADMIN_JWT_SECRET, cb)\<close>; \<open>Inl\<close> is
     \<open>next(err)\<close>, \<open>Inr user\<close> is \<open>req.user = user; next()\<close>\<close>
  "authenticateToken jwt_verify authHeader =
     (let token = bearer_token authHeader
      in if \<not> truthy_str token then Inl (AppError ''Authentication token required'' 401 None)
         else (case jwt_verify (the token) of
                 VerifyError nm \<Rightarrow>
                   (if nm = ''TokenExpiredError'' then Inl (AppError ''Token expired'' 401 None)
                    else Inl (AppError ''Invalid token'' 403 None))
               | Verified user \<Rightarrow> Inr user))"

definition protected_route_status :: "bool \<Rightarrow> (string \<Rightarrow> 'u verify_result) \<Rightarrow> string option \<Rightarrow> nat option" where
  \<comment> \<open>the status of the response when the gate rejects (the error handler renders the
     error); \<open>None\<close> when the request passes the gate\<close>
  "protected_route_status production jwt_verify authHeader =
     (case authenticateToken jwt_verify authHeader of
        Inl err \<Rightarrow> Some (status (errorHandler production err))
      | Inr user \<Rightarrow> None)"

section \<open>Summarization collaborator (services/perplexity.js)\<close>

record article_summary =
  headline :: string
  summaryText :: string     \<comment> \<open>the property \<open>summary\<close>\<close>
  keywordList :: "string list"   \<comment> \<open>the property \<open>keywords\<close>\<close>
  readTime :: string
  source :: string
  mock :: bool              \<comment> \<open>a result of the provider has no \<open>mock\<close> property: falsy\<close>

record axios_error =
  response_status :: "nat option"    \<comment> \<open>\<open>error.response?.status\<close>\<close>
  error_code :: "string option"      \<comment> \<open>\<open>error.code\<close>; axios sets \<open>ECONNABORTED\<close> on a timeout\<close>

text \<open>
  What the \<open>try\<close> block of \<open>summarizeArticle\<close> does once the request is sent: it returns
  the summary it builds from the provider's answer, or something in it throws (the
  request, or reading the answer).
\<close>

datatype try_outcome = Returned article_summary | Threw axios_error

definition extractDomain :: "(string \<Rightarrow> string option) \<Rightarrow> string \<Rightarrow> string" where
  \<comment> \<open>\<open>URL_hostname url\<close> is \<open>new URL(url).hostname\<close>, \<open>None\<close> when the constructor throws\<close>
  "extractDomain URL_hostname url =
     (case URL_hostname url of
        Some hostname \<Rightarrow> replace_first ''www.'' [] hostname
      | None \<Rightarrow> ''Unknown Source'')"

definition generateMockSummary :: "(string \<Rightarrow> string option) \<Rightarrow> string \<Rightarrow> article_summary" where
  "generateMockSummary URL_hostname url =
     (let domain = extractDomain URL_hostname url
      in \<lparr>headline = ''Breaking News from '' @ domain,
          summaryText = ''This is a mock summary generated for demonstration purposes. In production, this would contain actual article content extracted via Perplexity AI.'',
          keywordList = [''technology'', ''innovation'', ''news''],
          readTime = ''3 min'',
          source = url,
          mock = True\<rparr>)"

definition summarizeArticle ::
  "(string \<Rightarrow> string option) \<Rightarrow> string option \<Rightarrow> string option \<Rightarrow>
   (string \<Rightarrow> nat \<Rightarrow> try_outcome) \<Rightarrow> string \<Rightarrow> nat \<Rightarrow> js_error + article_summary" where
  \<comment> \<open>the two environment variables are \<open>PERPLEXITY_MOCK_MODE\<close> and \<open>PERPLEXITY_API_KEY\<close>;
     \<open>Inl\<close> is a thrown error\<close>
  "summarizeArticle URL_hostname env_MOCK_MODE env_API_KEY provider url maxLength =
     (if env_MOCK_MODE = Some ''true'' then Inr (generateMockSummary URL_hostname url)
      else if \<not> truthy_str env_API_KEY then Inr (generateMockSummary URL_hostname url)
      else (case provider url maxLength of
              Returned s \<Rightarrow> Inr s
            | Threw e \<Rightarrow>
                (if response_status e = Some 429
                   then Inl (Error ''Rate limit exceeded. Please try again later.'')
                 else if response_status e = Some 401
                   then Inl (Error ''Invalid Perplexity API key'')
                 else if error_code e = Some ''ECONNABORTED''
                   then Inl (Error ''Request timeout. The article may be too large or unavailable.'')
                 else Inr (generateMockSummary URL_hostname url))))"

section \<open>Content records\<close>

record style =
  backgroundColor :: "string option"
  textColor :: "string option"
  accentColor :: "string option"

text \<open>
  The content object of a request body (\<open>ContentInput\<close>). A property that is missing is
  \<open>None\<close>; \<open>type\<close> is always there, the route checks it.
\<close>

record content_input =
  type :: string
  title :: "string option"
  summary :: "string option"
  url :: "string option"
  videoUrl :: "string option"
  posterUrl :: "string option"
  modelUrl :: "string option"
  imageUrl :: "string option"
  ctaText :: "string option"
  ctaUrl :: "string option"
  style :: "style option"
  expiresAt :: "string option"

datatype time_value =
    TextTime string     \<comment> \<open>a TEXT timestamp of SQLite\<close>
  | ServerTime int      \<comment> \<open>a Firestore timestamp, in milliseconds\<close>

text \<open>What \<open>getContent\<close> resolves to when the record exists.\<close>

record content = content_input +
  markerId :: string
  createdAt :: time_value
  updatedAt :: time_value

text \<open>
  What the adapters take from outside: the clocks, \<open>JSON.stringify\<close> and \<open>JSON.parse\<close> on
  a style (\<open>None\<close>: a SyntaxError), \<open>new Date(s)\<close> as milliseconds (\<open>None\<close>: an Invalid
  Date), \<open>Date.toISOString\<close>, and the id Firestore gives a new document.
\<close>

record env =
  CURRENT_TIMESTAMP :: string
  now_iso :: string
  now_ms :: int
  JSON_stringify :: "style \<Rightarrow> string"
  JSON_parse :: "string \<Rightarrow> style option"
  Date_parse :: "string \<Rightarrow> int option"
  toISOString :: "int \<Rightarrow> string"
  autoId :: string

section \<open>SQLite adapter (database/adapters/sqlite.js)\<close>

record content_row =
  marker_id :: string
  type_col :: string
  title_col :: "string option"
  summary_col :: "string option"
  url_col :: "string option"
  video_url :: "string option"
  poster_url :: "string option"
  model_url :: "string option"
  image_url :: "string option"
  cta_text :: "string option"
  cta_url :: "string option"
  style_col :: "string option"
  expires_at :: "string option"
  created_at :: string
  updated_at :: string

record analytics_row =
  row_id :: nat
  a_marker_id :: string
  event_type :: string
  session_id :: "string option"
  timestamp_col :: string
  duration_col :: "rat option"
  user_agent :: "string option"
  ip_address :: "string option"
  metadata_col :: "string option"

record sqlite_db =
  content_table :: "content_row list"
  analytics_table :: "analytics_row list"
  sqlite_sequence :: nat     \<comment> \<open>the last AUTOINCREMENT id\<close>

definition primary_key_ok :: "sqlite_db \<Rightarrow> bool" where
  \<comment> \<open>\<open>marker_id TEXT PRIMARY KEY\<close>\<close>
  "primary_key_ok db = distinct (map marker_id (content_table db))"

definition parseContentRow :: "env \<Rightarrow> content_row \<Rightarrow> js_error + content" where
  "parseContentRow e row =
     (let parsed = (if truthy_str (style_col row) then JSON_parse e (the (style_col row)) else None)
      in if truthy_str (style_col row) \<and> parsed = None
         then Inl \<lparr>name = ''SyntaxError'', message = ''Unexpected token in JSON'',
                   statusCode = None, details = None, code = None\<rparr>
         else Inr \<lparr>type = type_col row, title = title_col row, summary = summary_col row,
                   url = url_col row, videoUrl = video_url row, posterUrl = poster_url row,
                   modelUrl = model_url row, imageUrl = image_url row, ctaText = cta_text row,
                   ctaUrl = cta_url row, style = parsed, expiresAt = expires_at row,
                   markerId = marker_id row, createdAt = TextTime (created_at row),
                   updatedAt = TextTime (updated_at row)\<rparr>)"

definition sqlite_getContent :: "env \<Rightarrow> sqlite_db \<Rightarrow> string \<Rightarrow> js_error + content option" where
  "sqlite_getContent e db mid =
     (case find (\<lambda>r. marker_id r = mid) (content_table db) of
        None \<Rightarrow> Inr None
      | Some row \<Rightarrow> (case parseContentRow e row of Inl err \<Rightarrow> Inl err | Inr c \<Rightarrow> Inr (Some c)))"

definition excluded_row :: "env \<Rightarrow> string \<Rightarrow> content_input \<Rightarrow> content_row" where
  \<comment> \<open>the values bound to the INSERT\<close>
  "excluded_row e mid c =
     \<lparr>marker_id = mid, type_col = type c, title_col = or_null (title c),
      summary_col = or_null (summary c), url_col = or_null (url c),
      video_url = or_null (videoUrl c), poster_url = or_null (posterUrl c),
      model_url = or_null (modelUrl c), image_url = or_null (imageUrl c),
      cta_text = or_null (ctaText c), cta_url = or_null (ctaUrl c),
      style_col = (case style c of Some st \<Rightarrow> Some (JSON_stringify e st) | None \<Rightarrow> None),
      expires_at = or_null (expiresAt c),
      created_at = CURRENT_TIMESTAMP e, updated_at = CURRENT_TIMESTAMP e\<rparr>"

definition upsert_row :: "content_row \<Rightarrow> content_row list \<Rightarrow> content_row list" where
  \<comment> \<open>\<open>INSERT ... ON CONFLICT(marker_id) DO UPDATE SET\<close> every column but \<open>created_at\<close>\<close>
  "upsert_row new rows =
     (if list_ex (\<lambda>r. marker_id r = marker_id new) rows
      then map (\<lambda>r. if marker_id r = marker_id new then new\<lparr>created_at := created_at r\<rparr> else r) rows
      else rows @ [new])"

definition sqlite_setContent ::
  "env \<Rightarrow> sqlite_db \<Rightarrow> string \<Rightarrow> content_input \<Rightarrow> sqlite_db \<times> (string \<times> content_input)" where
  \<comment> \<open>resolves to \<open>{ markerId, ...content }\<close>\<close>
  "sqlite_setContent e db mid c =
     (db\<lparr>content_table := upsert_row (excluded_row e mid c) (content_table db)\<rparr>, (mid, c))"

definition sqlite_deleteContent :: "sqlite_db \<Rightarrow> string \<Rightarrow> sqlite_db \<times> bool" where
  \<comment> \<open>resolves to \<open>{ deleted: this.changes > 0 }\<close>\<close>
  "sqlite_deleteContent db mid =
     (let changes = length (filter (\<lambda>r. marker_id r = mid) (content_table db))
      in (db\<lparr>content_table := filter (\<lambda>r. marker_id r \<noteq> mid) (content_table db)\<rparr>, 0 < changes))"

section \<open>Analytics records\<close>

record event_input =
  e_markerId :: string
  eventType :: string
  sessionId :: "string option"
  timestamp :: "string option"
  duration :: "rat option"
  userAgent :: "string option"
  ipAddress :: "string option"
  metadata :: "string option"     \<comment> \<open>the free-form object, as its JSON text\<close>

record analytics_summary =
  s_markerId :: string
  totalScans :: nat
  totalClicks :: nat
  avgDuration :: rat
  lastScan :: "string option"

definition zero_summary :: "string \<Rightarrow> analytics_summary" where
  "zero_summary mid =
     \<lparr>s_markerId = mid, totalScans = 0, totalClicks = 0, avgDuration = 0, lastScan = None\<rparr>"

subsection \<open>SQLite analytics\<close>

definition sqlite_recordAnalyticsEvent ::
  "env \<Rightarrow> sqlite_db \<Rightarrow> event_input \<Rightarrow> sqlite_db \<times> (nat \<times> event_input)" where
  \<comment> \<open>resolves to \<open>{ id: this.lastID, ...event }\<close>\<close>
  "sqlite_recordAnalyticsEvent e db ev =
     (let lastID = Suc (sqlite_sequence db);
          row = \<lparr>row_id = lastID, a_marker_id = e_markerId ev, event_type = eventType ev,
                 session_id = or_null (sessionId ev),
                 timestamp_col = or_default (timestamp ev) (now_iso e),
                 duration_col = num_or_null (duration ev),
                 user_agent = or_null (userAgent ev), ip_address = or_null (ipAddress ev),
                 metadata_col = metadata ev\<rparr>
      in (db\<lparr>analytics_table := analytics_table db @ [row], sqlite_sequence := lastID\<rparr>,
          (lastID, ev)))"

record summary_row =
  row_marker_id :: string
  total_scans :: nat
  total_clicks :: nat
  avg_duration :: "rat option"
  last_scan :: "string option"

definition sql_avg :: "rat option list \<Rightarrow> rat option" where
  \<comment> \<open>\<open>AVG\<close>: over the values that are not NULL, NULL when there is none\<close>
  "sql_avg vs =
     (let xs = concat (map (\<lambda>v. case v of None \<Rightarrow> [] | Some x \<Rightarrow> [x]) vs)
      in if xs = [] then None else Some (sum_list xs / of_nat (length xs)))"

definition sql_max :: "string list \<Rightarrow> string option" where
  \<comment> \<open>\<open>MAX\<close> on a TEXT column\<close>
  "sql_max xs = (case xs of [] \<Rightarrow> None | x # ys \<Rightarrow> Some (fold max ys x))"

definition summary_query :: "analytics_row list \<Rightarrow> string \<Rightarrow> summary_row option" where
  \<comment> \<open>the SELECT of \<open>getAnalyticsSummary\<close>: one row for the group, none when no row matches\<close>
  "summary_query rows mid =
     (let g = filter (\<lambda>r. a_marker_id r = mid) rows
      in if g = [] then None
         else Some \<lparr>row_marker_id = mid,
                    total_scans = length (filter (\<lambda>r. event_type r = ''scan'') g),
                    total_clicks = length (filter (\<lambda>r. event_type r = ''click'') g),
                    avg_duration =
                      sql_avg (map (\<lambda>r. if event_type r = ''viewDuration'' then duration_col r else None) g),
                    last_scan = sql_max (map timestamp_col g)\<rparr>)"

definition sqlite_getAnalyticsSummary :: "sqlite_db \<Rightarrow> string \<Rightarrow> analytics_summary" where
  "sqlite_getAnalyticsSummary db mid =
     (case summary_query (analytics_table db) mid of
        None \<Rightarrow> zero_summary mid
      | Some row \<Rightarrow>
          if total_scans row = 0 then zero_summary mid
          else \<lparr>s_markerId = row_marker_id row,
                totalScans = total_scans row,
                totalClicks = total_clicks row,
                avgDuration = (case avg_duration row of None \<Rightarrow> 0 | Some a \<Rightarrow> a),
                lastScan = last_scan row\<rparr>)"

definition sqlite_getAllAnalyticsSummaries_row :: "summary_row \<Rightarrow> analytics_summary" where
  \<comment> \<open>what \<open>getAllAnalyticsSummaries\<close> makes of the same SELECT's row for a marker\<close>
  "sqlite_getAllAnalyticsSummaries_row row =
     \<lparr>s_markerId = row_marker_id row,
      totalScans = total_scans row,
      totalClicks = total_clicks row,
      avgDuration = (case avg_duration row of None \<Rightarrow> 0 | Some a \<Rightarrow> a),
      lastScan = last_scan row\<rparr>"

section \<open>Firebase adapter (database/adapters/firebase.js)\<close>

record content_doc =
  doc_fields :: content_input
  doc_createdAt :: int
  doc_updatedAt :: int

record analytics_doc =
  doc_id :: string
  d_markerId :: string
  d_eventType :: string
  d_sessionId :: "string option"
  d_timestamp :: int
  d_duration :: "rat option"
  d_userAgent :: "string option"
  d_ipAddress :: "string option"
  d_metadata :: "string option"

record firebase_db =
  content_docs :: "string \<rightharpoonup> content_doc"
  analytics_docs :: "analytics_doc list"

text \<open>
  \<open>docRef.set(data, { merge: true })\<close> writes the properties \<open>data\<close> has and leaves the
  other fields of the document as they are, inside the \<open>style\<close> map too.
\<close>

definition merge_opt :: "'a option \<Rightarrow> 'a option \<Rightarrow> 'a option" where
  "merge_opt old new = (case new of None \<Rightarrow> old | Some v \<Rightarrow> Some v)"

definition merge_style :: "style option \<Rightarrow> style option \<Rightarrow> style option" where
  "merge_style old new =
     (case new of
        None \<Rightarrow> old
      | Some n \<Rightarrow>
          (case old of
             None \<Rightarrow> Some n
           | Some ol \<Rightarrow>
               Some \<lparr>backgroundColor = merge_opt (backgroundColor ol) (backgroundColor n),
                     textColor = merge_opt (textColor ol) (textColor n),
                     accentColor = merge_opt (accentColor ol) (accentColor n)\<rparr>))"

definition merge_fields :: "content_input \<Rightarrow> content_input \<Rightarrow> content_input" where
  "merge_fields old new =
     \<lparr>type = type new,
      title = merge_opt (title old) (title new),
      summary = merge_opt (summary old) (summary new),
      url = merge_opt (url old) (url new),
      videoUrl = merge_opt (videoUrl old) (videoUrl new),
      posterUrl = merge_opt (posterUrl old) (posterUrl new),
      modelUrl = merge_opt (modelUrl old) (modelUrl new),
      imageUrl = merge_opt (imageUrl old) (imageUrl new),
      ctaText = merge_opt (ctaText old) (ctaText new),
      ctaUrl = merge_opt (ctaUrl old) (ctaUrl new),
      style = merge_style (style old) (style new),
      expiresAt = merge_opt (expiresAt old) (expiresAt new)\<rparr>"

definition firebase_getContent :: "firebase_db \<Rightarrow> string \<Rightarrow> content option" where
  \<comment> \<open>\<open>{ markerId, ...doc.data() }\<close>\<close>
  "firebase_getContent db mid =
     (case content_docs db mid of
        None \<Rightarrow> None
      | Some d \<Rightarrow>
          Some \<lparr>type = type (doc_fields d), title = title (doc_fields d), summary = summary (doc_fields d),
                url = url (doc_fields d), videoUrl = videoUrl (doc_fields d),
                posterUrl = posterUrl (doc_fields d), modelUrl = modelUrl (doc_fields d),
                imageUrl = imageUrl (doc_fields d), ctaText = ctaText (doc_fields d),
                ctaUrl = ctaUrl (doc_fields d), style = style (doc_fields d),
                expiresAt = expiresAt (doc_fields d),
                markerId = mid, createdAt = ServerTime (doc_createdAt d),
                updatedAt = ServerTime (doc_updatedAt d)\<rparr>)"

definition firebase_setContent ::
  "env \<Rightarrow> firebase_db \<Rightarrow> string \<Rightarrow> content_input \<Rightarrow> firebase_db \<times> (string \<times> content_input)" where
  "firebase_setContent e db mid c =
     (let data = (case content_docs db mid of
                    None \<Rightarrow> \<lparr>doc_fields = c, doc_createdAt = now_ms e, doc_updatedAt = now_ms e\<rparr>
                  | Some old \<Rightarrow>
                      \<lparr>doc_fields = merge_fields (doc_fields old) c,
                       doc_createdAt = doc_createdAt old, doc_updatedAt = now_ms e\<rparr>)
      in (db\<lparr>content_docs := (content_docs db)(mid \<mapsto> data)\<rparr>, (mid, c)))"

definition firebase_deleteContent :: "firebase_db \<Rightarrow> string \<Rightarrow> firebase_db \<times> bool" where
  \<comment> \<open>\<open>await docRef.delete(); return { deleted: true }\<close>\<close>
  "firebase_deleteContent db mid = (db\<lparr>content_docs := (content_docs db)(mid := None)\<rparr>, True)"

subsection \<open>Firebase analytics\<close>

definition firebase_recordAnalyticsEvent ::
  "env \<Rightarrow> firebase_db \<Rightarrow> event_input \<Rightarrow> js_error + firebase_db \<times> (string \<times> event_input)" where
  \<comment> \<open>\<open>Timestamp.fromDate\<close> throws on an Invalid Date\<close>
  "firebase_recordAnalyticsEvent e db ev =
     (let stamp = (if truthy_str (timestamp ev) then Date_parse e (the (timestamp ev))
                   else Some (now_ms e))
      in case stamp of
           None \<Rightarrow> Inl (Error ''Value for argument seconds is not a valid integer.'')
         | Some t \<Rightarrow>
             Inr (db\<lparr>analytics_docs := analytics_docs db @
                       [\<lparr>doc_id = autoId e, d_markerId = e_markerId ev, d_eventType = eventType ev,
                         d_sessionId = or_null (sessionId ev), d_timestamp = t,
                         d_duration = num_or_null (duration ev),
                         d_userAgent = or_null (userAgent ev),
                         d_ipAddress = or_null (ipAddress ev),
                         d_metadata = metadata ev\<rparr>]\<rparr>,
                  (autoId e, ev)))"

record summary_acc =
  acc_totalScans :: nat
  acc_totalClicks :: nat
  acc_totalDuration :: rat
  acc_durationCount :: nat
  acc_lastScan :: "int option"

definition summary_step :: "analytics_doc \<Rightarrow> summary_acc \<Rightarrow> summary_acc" where
  \<comment> \<open>the body of \<open>snapshot.docs.forEach\<close>\<close>
  "summary_step d a =
     (if d_eventType d = ''scan'' then
        a\<lparr>acc_totalScans := Suc (acc_totalScans a),
          acc_lastScan := (case acc_lastScan a of
                             None \<Rightarrow> Some (d_timestamp d)
                           | Some l \<Rightarrow> if l < d_timestamp d then Some (d_timestamp d) else Some l)\<rparr>
      else if d_eventType d = ''click'' then a\<lparr>acc_totalClicks := Suc (acc_totalClicks a)\<rparr>
      else if d_eventType d = ''viewDuration'' \<and> truthy_num (d_duration d) then
        a\<lparr>acc_totalDuration := acc_totalDuration a + the (d_duration d),
          acc_durationCount := Suc (acc_durationCount a)\<rparr>
      else a)"

definition firebase_getAnalyticsSummary :: "env \<Rightarrow> firebase_db \<Rightarrow> string \<Rightarrow> analytics_summary" where
  "firebase_getAnalyticsSummary e db mid =
     (let docs = filter (\<lambda>d. d_markerId d = mid) (analytics_docs db);
          a = fold summary_step docs
                \<lparr>acc_totalScans = 0, acc_totalClicks = 0, acc_totalDuration = 0,
                 acc_durationCount = 0, acc_lastScan = None\<rparr>
      in \<lparr>s_markerId = mid,
          totalScans = acc_totalScans a,
          totalClicks = acc_totalClicks a,
          avgDuration = (if 0 < acc_durationCount a
                         then acc_totalDuration a / of_nat (acc_durationCount a) else 0),
          lastScan = (case acc_lastScan a of
                        None \<Rightarrow> None
                      | Some t \<Rightarrow> or_null (Some (toISOString e t)))\<rparr>)"

section \<open>PostgreSQL adapter (database/adapters/postgres.js)\<close>

definition notImplemented :: js_error where
  "notImplemented = Error ''PostgreSQL adapter is not implemented. Set DATABASE_TYPE=sqlite or provide a custom implementation.''"

section \<open>Storage facade: forwarding (database/index.js)\<close>

text \<open>The state behind \<open>currentAdapter\<close>. The placeholder adapter keeps none.\<close>

datatype database = SqliteDb sqlite_db | FirebaseDb firebase_db | PostgresDb

definition getContent :: "env \<Rightarrow> database \<Rightarrow> string \<Rightarrow> js_error + content option" where
  "getContent e db mid =
     (case db of
        SqliteDb s \<Rightarrow> sqlite_getContent e s mid
      | FirebaseDb f \<Rightarrow> Inr (firebase_getContent f mid)
      | PostgresDb \<Rightarrow> Inl notImplemented)"

definition setContent ::
  "env \<Rightarrow> database \<Rightarrow> string \<Rightarrow> content_input \<Rightarrow> js_error + database \<times> (string \<times> content_input)" where
  "setContent e db mid c =
     (case db of
        SqliteDb s \<Rightarrow> (case sqlite_setContent e s mid c of (s', r) \<Rightarrow> Inr (SqliteDb s', r))
      | FirebaseDb f \<Rightarrow> (case firebase_setContent e f mid c of (f', r) \<Rightarrow> Inr (FirebaseDb f', r))
      | PostgresDb \<Rightarrow> Inl notImplemented)"

definition deleteContent :: "database \<Rightarrow> string \<Rightarrow> js_error + database \<times> bool" where
  "deleteContent db mid =
     (case db of
        SqliteDb s \<Rightarrow> (case sqlite_deleteContent s mid of (s', r) \<Rightarrow> Inr (SqliteDb s', r))
      | FirebaseDb f \<Rightarrow> (case firebase_deleteContent f mid of (f', r) \<Rightarrow> Inr (FirebaseDb f', r))
      | PostgresDb \<Rightarrow> Inl notImplemented)"

definition recordAnalyticsEvent :: "env \<Rightarrow> database \<Rightarrow> event_input \<Rightarrow> js_error + database" where
  \<comment> \<open>the state after the call; the event it resolves to is left out here\<close>
  "recordAnalyticsEvent e db ev =
     (case db of
        SqliteDb s \<Rightarrow> Inr (SqliteDb (fst (sqlite_recordAnalyticsEvent e s ev)))
      | FirebaseDb f \<Rightarrow>
          (case firebase_recordAnalyticsEvent e f ev of
             Inl err \<Rightarrow> Inl err
           | Inr (f', r) \<Rightarrow> Inr (FirebaseDb f'))
      | PostgresDb \<Rightarrow> Inl notImplemented)"

definition getAnalyticsSummary :: "env \<Rightarrow> database \<Rightarrow> string \<Rightarrow> js_error + analytics_summary" where
  "getAnalyticsSummary e db mid =
     (case db of
        SqliteDb s \<Rightarrow> Inr (sqlite_getAnalyticsSummary s mid)
      | FirebaseDb f \<Rightarrow> Inr (firebase_getAnalyticsSummary e f mid)
      | PostgresDb \<Rightarrow> Inl notImplemented)"

fun ingest :: "env \<Rightarrow> database \<Rightarrow> event_input list \<Rightarrow> js_error + database" where
  \<comment> \<open>the events recorded one after the other, stopping at the first that throws\<close>
  "ingest e db [] = Inr db"
| "ingest e db (ev # evs) =
     (case recordAnalyticsEvent e db ev of
        Inl err \<Rightarrow> Inl err
      | Inr db' \<Rightarrow> ingest e db' evs)"

definition empty_database :: "adapter \<Rightarrow> database" where
  \<comment> \<open>the store right after the adapter created it\<close>
  "empty_database a =
     (case a of
        sqliteAdapter \<Rightarrow> SqliteDb \<lparr>content_table = [], analytics_table = [], sqlite_sequence = 0\<rparr>
      | firebaseAdapter \<Rightarrow> FirebaseDb \<lparr>content_docs = Map.empty, analytics_docs = []\<rparr>
      | postgresAdapter \<Rightarrow> PostgresDb)"

section \<open>Content routes (routes/content.js)\<close>

text \<open>
  The \<open>trim()\<close> sanitizer of express-validator removes, at both ends, the characters of
  the regular expression \<open>\s\<close>: tab, line feed, vertical tab, form feed, carriage return,
  space, U+00A0, U+1680, U+2000 to U+200A, U+2028, U+2029, U+202F, U+205F, U+3000 and
  U+FEFF. Their UTF-8 encodings:
\<close>

definition js_whitespace :: "string list" where
  "js_whitespace =
     [[CHR 0x09], [CHR 0x0A], [CHR 0x0B], [CHR 0x0C], [CHR 0x0D], [CHR 0x20],
      [CHR 0xC2, CHR 0xA0],
      [CHR 0xE1, CHR 0x9A, CHR 0x80],
      [CHR 0xE2, CHR 0x80, CHR 0x80], [CHR 0xE2, CHR 0x80, CHR 0x81],
      [CHR 0xE2, CHR 0x80, CHR 0x82], [CHR 0xE2, CHR 0x80, CHR 0x83],
      [CHR 0xE2, CHR 0x80, CHR 0x84], [CHR 0xE2, CHR 0x80, CHR 0x85],
      [CHR 0xE2, CHR 0x80, CHR 0x86], [CHR 0xE2, CHR 0x80, CHR 0x87],
      [CHR 0xE2, CHR 0x80, CHR 0x88], [CHR 0xE2, CHR 0x80, CHR 0x89],
      [CHR 0xE2, CHR 0x80, CHR 0x8A],
      [CHR 0xE2, CHR 0x80, CHR 0xA8], [CHR 0xE2, CHR 0x80, CHR 0xA9],
      [CHR 0xE2, CHR 0x80, CHR 0xAF],
      [CHR 0xE2, CHR 0x81, CHR 0x9F],
      [CHR 0xE3, CHR 0x80, CHR 0x80],
      [CHR 0xEF, CHR 0xBB, CHR 0xBF]]"

fun strip_leading :: "string list \<Rightarrow> string \<Rightarrow> string" where
  \<comment> \<open>drops, from the front, every occurrence of one of the given byte sequences\<close>
  "strip_leading ws [] = []"
| "strip_leading ws (c # cs) =
     (case find (\<lambda>w. w \<noteq> [] \<and> take (length w) (c # cs) = w) ws of
        None \<Rightarrow> c # cs
      | Some w \<Rightarrow> strip_leading ws (drop (length w - 1) cs))"

definition trim :: "string \<Rightarrow> string" where
  \<comment> \<open>\<open>rtrim(ltrim(str))\<close>; the request keeps the trimmed value\<close>
  "trim s = rev (strip_leading (map rev js_whitespace) (rev (strip_leading js_whitespace s)))"

definition validate_markerId :: "string \<Rightarrow> js_error + string" where
  \<comment> \<open>\<open>param('markerId').isString().trim().notEmpty()\<close>, then the handler's
     \<open>if (!errors.isEmpty()) throw new AppError('Validation failed', 400, errors.array())\<close>\<close>
  "validate_markerId raw =
     (let mid = trim raw
      in if mid = [] then
           Inl (AppError ''Validation failed'' 400 (Some (ValidationErrors [''Marker ID is required''])))
         else Inr mid)"

definition is_expired :: "env \<Rightarrow> content \<Rightarrow> bool" where
  \<comment> \<open>\<open>content.expiresAt && new Date(content.expiresAt) < new Date()\<close>\<close>
  "is_expired e c =
     (truthy_str (expiresAt c) \<and>
      (case Date_parse e (the (expiresAt c)) of None \<Rightarrow> False | Some t \<Rightarrow> t < now_ms e))"

definition content_get_handler :: "env \<Rightarrow> database \<Rightarrow> string \<Rightarrow> js_error + content" where
  \<comment> \<open>\<open>GET /api/content/:markerId\<close>; \<open>Inr c\<close> is \<open>res.json({ success: true, data: c })\<close>\<close>
  "content_get_handler e db raw =
     (case validate_markerId raw of
        Inl err \<Rightarrow> Inl err
      | Inr mid \<Rightarrow>
          (case getContent e db mid of
             Inl err \<Rightarrow> Inl err
           | Inr None \<Rightarrow> Inl (AppError (''Content not found for marker: '' @ mid) 404 None)
           | Inr (Some c) \<Rightarrow>
               if is_expired e c
               then Inl (AppError ''Content has expired'' 410
                          (Some (ExpiresAtDetail (the (expiresAt c)))))
               else Inr c))"

definition content_delete_handler ::
  "(string \<Rightarrow> 'u verify_result) \<Rightarrow> string option \<Rightarrow> database \<Rightarrow> string \<Rightarrow>
   js_error + database \<times> string" where
  \<comment> \<open>\<open>DELETE /api/content/:markerId\<close> behind \<open>authenticateToken\<close>: the validators run (and
     trim) but the handler does not read their result; \<open>Inr\<close> carries the store and the
     message of the 200 response\<close>
  "content_delete_handler jwt_verify authHeader db raw =
     (case authenticateToken jwt_verify authHeader of
        Inl err \<Rightarrow> Inl err
      | Inr user \<Rightarrow>
          (let mid = trim raw
           in case deleteContent db mid of
                Inl err \<Rightarrow> Inl err
              | Inr (db', deleted) \<Rightarrow>
                  if \<not> deleted then Inl (AppError ''Content not found'' 404 None)
                  else Inr (db', ''Content deleted for marker: '' @ mid)))"

section \<open>Answers of the delete route\<close>

definition content_delete_response ::
  "bool \<Rightarrow> (string \<Rightarrow> 'u verify_result) \<Rightarrow> string option \<Rightarrow> database \<Rightarrow> string \<Rightarrow> nat \<times> string" where
  \<comment> \<open>status and message of the answer to \<open>DELETE /api/content/:markerId\<close>: the error
     handler's for a thrown error, 200 and the handler's own otherwise\<close>
  "content_delete_response production jwt_verify authHeader db raw =
     (case content_delete_handler jwt_verify authHeader db raw of
        Inl err \<Rightarrow> (status (errorHandler production err), body_message (errorHandler production err))
      | Inr (db', msg) \<Rightarrow> (200, msg))"

section \<open>Analytics: ingesting, then summarising\<close>

definition summary_after ::
  "env \<Rightarrow> database \<Rightarrow> event_input list \<Rightarrow> string \<Rightarrow> js_error + analytics_summary" where
  \<comment> \<open>the summary of a marker once the events are ingested, in this order, into a store\<close>
  "summary_after e db evs mid =
     (case ingest e db evs of
        Inl err \<Rightarrow> Inl err
      | Inr db' \<Rightarrow> getAnalyticsSummary e db' mid)"

section \<open>Vocabulary of the results\<close>

text \<open>
  The input as the SQLite adapter stores it: every optional string through \<open>|| null\<close>,
  which turns the empty string into NULL. \<open>codec_ok\<close> says that \<open>JSON.parse\<close> undoes
  \<open>JSON.stringify\<close> on the style at hand and that the text is not empty, as it is for
  every object.
\<close>

definition null_empty_strings :: "content_input \<Rightarrow> content_input" where
  "null_empty_strings c =
     c\<lparr>title := or_null (title c), summary := or_null (summary c), url := or_null (url c),
       videoUrl := or_null (videoUrl c), posterUrl := or_null (posterUrl c),
       modelUrl := or_null (modelUrl c), imageUrl := or_null (imageUrl c),
       ctaText := or_null (ctaText c), ctaUrl := or_null (ctaUrl c),
       expiresAt := or_null (expiresAt c)\<rparr>"

definition no_empty_strings :: "content_input \<Rightarrow> bool" where
  "no_empty_strings c =
     list_all (\<lambda>x. x \<noteq> Some [])
       [title c, summary c, url c, videoUrl c, posterUrl c, modelUrl c, imageUrl c,
        ctaText c, ctaUrl c, expiresAt c]"

definition codec_ok :: "env \<Rightarrow> style option \<Rightarrow> bool" where
  "codec_ok e st =
     (case st of
        None \<Rightarrow> True
      | Some v \<Rightarrow> JSON_stringify e v \<noteq> [] \<and> JSON_parse e (JSON_stringify e v) = Some v)"

text \<open>
  Counting: the events of a type for a marker among those ingested, the rows and the
  documents they become, the timestamps of a marker's scan documents, and the timestamps
  of all of a marker's rows.
\<close>

definition count_events :: "string \<Rightarrow> string \<Rightarrow> event_input list \<Rightarrow> nat" where
  "count_events ty mid evs = length (filter (\<lambda>ev. e_markerId ev = mid \<and> eventType ev = ty) evs)"

definition count_rows :: "string \<Rightarrow> string \<Rightarrow> analytics_row list \<Rightarrow> nat" where
  "count_rows ty mid rows = length (filter (\<lambda>r. a_marker_id r = mid \<and> event_type r = ty) rows)"

definition count_docs :: "string \<Rightarrow> string \<Rightarrow> analytics_doc list \<Rightarrow> nat" where
  "count_docs ty mid docs = length (filter (\<lambda>d. d_markerId d = mid \<and> d_eventType d = ty) docs)"

definition scan_times :: "string \<Rightarrow> analytics_doc list \<Rightarrow> int list" where
  "scan_times mid docs =
     map d_timestamp (filter (\<lambda>d. d_markerId d = mid \<and> d_eventType d = ''scan'') docs)"

definition marker_timestamps :: "string \<Rightarrow> analytics_row list \<Rightarrow> string list" where
  "marker_timestamps mid rows = map timestamp_col (filter (\<lambda>r. a_marker_id r = mid) rows)"

section \<open>Concrete inputs\<close>

text \<open>
  Three verifiers: one finds a bad signature in every token, one finds every token
  expired, one accepts every token.
\<close>

definition reject_signature :: "string \<Rightarrow> unit verify_result" where
  "reject_signature token = VerifyError ''JsonWebTokenError''"

definition reject_expired :: "string \<Rightarrow> unit verify_result" where
  "reject_expired token = VerifyError ''TokenExpiredError''"

definition accept_token :: "string \<Rightarrow> unit verify_result" where
  "accept_token token = Verified ()"

text \<open>
  A URL parser that knows one article, and five providers: one times out, one answers
  429, one answers 401, one answers with a summary, one answers 503.
\<close>

definition example_hostname :: "string \<Rightarrow> string option" where
  "example_hostname u =
     (if u = ''https://www.example.com/article'' then Some ''www.example.com'' else None)"

definition provider_timeout :: "string \<Rightarrow> nat \<Rightarrow> try_outcome" where
  "provider_timeout u maxLength = Threw \<lparr>response_status = None, error_code = Some ''ECONNABORTED''\<rparr>"

definition provider_rate_limited :: "string \<Rightarrow> nat \<Rightarrow> try_outcome" where
  "provider_rate_limited u maxLength = Threw \<lparr>response_status = Some 429, error_code = Some ''ERR_BAD_REQUEST''\<rparr>"

definition provider_unauthorized :: "string \<Rightarrow> nat \<Rightarrow> try_outcome" where
  "provider_unauthorized u maxLength = Threw \<lparr>response_status = Some 401, error_code = Some ''ERR_BAD_REQUEST''\<rparr>"

definition provider_answers :: "string \<Rightarrow> nat \<Rightarrow> try_outcome" where
  "provider_answers u maxLength =
     Returned \<lparr>headline = ''AI in Healthcare'', summaryText = ''Models detect diseases earlier.'',
       keywordList = [''ai'', ''health''], readTime = ''1 min'', source = u, mock = False\<rparr>"

definition provider_unavailable :: "string \<Rightarrow> nat \<Rightarrow> try_outcome" where
  "provider_unavailable u maxLength = Threw \<lparr>response_status = Some 503, error_code = Some ''ERR_BAD_RESPONSE''\<rparr>"

text \<open>
  An environment (the clocks stand at noon of 1 March 2024; the JSON and date functions
  know the values the examples use) and the same environment five seconds later.
\<close>

definition quoted :: "string \<Rightarrow> string" where
  "quoted s = CHR 0x22 # s @ [CHR 0x22]"

definition example_style :: style where
  "example_style =
     \<lparr>backgroundColor = Some ''#000000'', textColor = Some ''#ffffff'', accentColor = Some ''#ff6b6b''\<rparr>"

definition example_style_json :: string where
  "example_style_json =
     ''{'' @ quoted ''backgroundColor'' @ '':'' @ quoted ''#000000'' @ '','' @
     quoted ''textColor'' @ '':'' @ quoted ''#ffffff'' @ '','' @
     quoted ''accentColor'' @ '':'' @ quoted ''#ff6b6b'' @ ''}''"

definition example_stringify :: "style \<Rightarrow> string" where
  "example_stringify st = (if st = example_style then example_style_json else ''{}'')"

definition example_parse :: "string \<Rightarrow> style option" where
  "example_parse s =
     (if s = example_style_json then Some example_style
      else if s = ''{}'' then Some \<lparr>backgroundColor = None, textColor = None, accentColor = None\<rparr>
      else None)"

definition example_Date_parse :: "string \<Rightarrow> int option" where
  "example_Date_parse s =
     (if s = ''2024-01-01T00:00:00.000Z'' then Some 1704067200000
      else if s = ''2030-01-01T00:00:00.000Z'' then Some 1893456000000
      else None)"

definition example_toISOString :: "int \<Rightarrow> string" where
  "example_toISOString t =
     (if t = 1704067200000 then ''2024-01-01T00:00:00.000Z''
      else if t = 1893456000000 then ''2030-01-01T00:00:00.000Z''
      else ''2024-03-01T12:00:00.000Z'')"

definition example_env :: env where
  "example_env =
     \<lparr>CURRENT_TIMESTAMP = ''2024-03-01 12:00:00'',
      now_iso = ''2024-03-01T12:00:00.000Z'',
      now_ms = 1709294400000,
      JSON_stringify = example_stringify,
      JSON_parse = example_parse,
      Date_parse = example_Date_parse,
      toISOString = example_toISOString,
      autoId = ''K3x9QpLm2VbT7RzYw0aD''\<rparr>"

definition later_env :: env where
  "later_env = example_env\<lparr>CURRENT_TIMESTAMP := ''2024-03-01 12:00:05'',
     now_iso := ''2024-03-01T12:00:05.000Z'', now_ms := 1709294405000\<rparr>"

text \<open>
  A news input and a video input; an empty SQLite database; a SQLite store with three
  records: one that expires in 2030, one that expired in January 2024, one that never
  expires; a Firebase store holding the news record under \<open>marker-ad\<close>.
\<close>

definition news_input :: content_input where
  "news_input =
     \<lparr>type = ''news'', title = Some ''Welcome to PortalAR!'', summary = Some ''Point your camera'',
      url = None, videoUrl = None, posterUrl = None, modelUrl = None, imageUrl = None,
      ctaText = Some ''Learn More'', ctaUrl = None, style = Some example_style, expiresAt = None\<rparr>"

definition video_input :: content_input where
  "video_input =
     \<lparr>type = ''video'', title = None, summary = None, url = None,
      videoUrl = Some ''https://example.com/ad.mp4'', posterUrl = None, modelUrl = None,
      imageUrl = None, ctaText = None, ctaUrl = None, style = None, expiresAt = None\<rparr>"

definition empty_sqlite :: sqlite_db where
  "empty_sqlite = \<lparr>content_table = [], analytics_table = [], sqlite_sequence = 0\<rparr>"

definition stored :: "database \<Rightarrow> string \<Rightarrow> content_input \<Rightarrow> database" where
  "stored db mid c = (case setContent example_env db mid c of Inr (db', r) \<Rightarrow> db' | Inl err \<Rightarrow> db)"

definition example_sqlite_store :: database where
  "example_sqlite_store =
     stored (stored (stored (empty_database sqliteAdapter)
        ''marker-live'' (news_input\<lparr>expiresAt := Some ''2030-01-01T00:00:00.000Z''\<rparr>))
        ''marker-old'' (news_input\<lparr>expiresAt := Some ''2024-01-01T00:00:00.000Z''\<rparr>))
        ''marker-plain'' news_input"

definition example_firebase_store :: database where
  "example_firebase_store = stored (empty_database firebaseAdapter) ''marker-ad'' news_input"

text \<open>An event with a client timestamp and nothing else, and a \<open>viewDuration\<close> event.\<close>

definition event :: "string \<Rightarrow> string \<Rightarrow> string \<Rightarrow> event_input" where
  "event mid ty ts =
     \<lparr>e_markerId = mid, eventType = ty, sessionId = None, timestamp = Some ts,
      duration = None, userAgent = None, ipAddress = None, metadata = None\<rparr>"

definition view_event :: "string \<Rightarrow> string \<Rightarrow> rat \<Rightarrow> event_input" where
  "view_event mid ts d = (event mid ''viewDuration'' ts)\<lparr>duration := Some d\<rparr>"

section \<open>Adapter selection: results\<close>

text \<open>
  C10. Every value of the backend selector other than \<open>firebase\<close> and \<open>postgres\<close>, an
  unset, empty, misspelled or unknown one included, selects the SQLite adapter: the
  switch's default. Selecting rejects nothing; the only failure \<open>initialize\<close> can then
  report is the SQLite adapter's own, when its database cannot be opened.
\<close>

theorem initialize_defaults_to_sqlite:
  assumes "sel \<noteq> Some ''firebase''" and "sel \<noteq> Some ''postgres''"
  shows "select_adapter sel = sqliteAdapter \<and>
         initialize sel reachable =
           (sqliteAdapter, if reachable then None else Some SqliteOpenError)"
  using assms
  by (auto simp: initialize_def select_adapter_def adapter_initialize_def or_default_def
      split: option.splits)

theorem initialize_defaults_to_sqlite_witness:
  "Some ''sqlight'' \<noteq> Some ''firebase'' \<and> Some ''sqlight'' \<noteq> Some ''postgres'' \<and>
   select_adapter (Some ''sqlight'') = sqliteAdapter \<and>
   initialize (Some ''sqlight'') True = (sqliteAdapter, None) \<and>
   initialize None False = (sqliteAdapter, Some SqliteOpenError)"
  using initialize_defaults_to_sqlite[of "Some ''sqlight''" True]
    initialize_defaults_to_sqlite[of None False]
  by simp

section \<open>Auth gate: results\<close>

lemma errorHandler_AppError_status:
  "sc \<noteq> 0 \<Longrightarrow> status (errorHandler production (AppError msg sc det)) = sc"
  by (simp add: errorHandler_def AppError_def Let_def)

lemma errorHandler_AppError_message:
  "sc \<noteq> 0 \<Longrightarrow> sc \<noteq> 500 \<Longrightarrow> msg \<noteq> [] \<Longrightarrow>
   body_message (errorHandler production (AppError msg sc det)) = msg"
  by (simp add: errorHandler_def AppError_def Let_def)

text \<open>
  C8, as stated: token absent, signature invalid and token expired are all answered with
  status 401. The gate rejects a token whose signature is invalid with
  \<open>AppError('Invalid token', 403)\<close>, answered 403.
\<close>

theorem auth_gate_invalid_signature_counterexample:
  "authenticateToken reject_signature (Some ''Bearer abc'') =
     Inl (AppError ''Invalid token'' 403 None) \<and>
   protected_route_status False reject_signature (Some ''Bearer abc'') = Some 403 \<and>
   protected_route_status False reject_signature (Some ''Bearer abc'') \<noteq> Some 401"
  by (simp add: protected_route_status_def authenticateToken_def bearer_token_def nth_opt_def
      truthy_str_def reject_signature_def errorHandler_AppError_status)

text \<open>
  C8, amended. A request to a protected route with no token (no header, or nothing
  after the first space of the header) is rejected with the error
  \<open>Authentication token required\<close>, status 401; a token that \<open>jwt.verify\<close> finds expired
  with \<open>Token expired\<close>, status 401; a token it rejects for any other reason (an invalid
  signature, a malformed token) with \<open>Invalid token\<close>, status 403; a token it accepts
  passes the gate with the decoded user. The error handler answers each rejection with
  the error's own status and message (error names \<open>Unauthorized\<close> and \<open>Forbidden\<close>), so the
  three rejections differ in their messages, and the invalid one in its status too.
\<close>

theorem auth_gate_statuses:
  "(\<not> truthy_str (bearer_token authHeader) \<longrightarrow>
      authenticateToken jwt_verify authHeader =
        Inl (AppError ''Authentication token required'' 401 None) \<and>
      protected_route_status production jwt_verify authHeader = Some 401) \<and>
   (bearer_token authHeader = Some token \<and> token \<noteq> [] \<and>
    jwt_verify token = VerifyError ''TokenExpiredError'' \<longrightarrow>
      authenticateToken jwt_verify authHeader = Inl (AppError ''Token expired'' 401 None) \<and>
      protected_route_status production jwt_verify authHeader = Some 401) \<and>
   (bearer_token authHeader = Some token \<and> token \<noteq> [] \<and>
    jwt_verify token = VerifyError nm \<and> nm \<noteq> ''TokenExpiredError'' \<longrightarrow>
      authenticateToken jwt_verify authHeader = Inl (AppError ''Invalid token'' 403 None) \<and>
      protected_route_status production jwt_verify authHeader = Some 403) \<and>
   (bearer_token authHeader = Some token \<and> token \<noteq> [] \<and> jwt_verify token = Verified user \<longrightarrow>
      authenticateToken jwt_verify authHeader = Inr user \<and>
      protected_route_status production jwt_verify authHeader = None) \<and>
   errorHandler production (AppError ''Authentication token required'' 401 None) =
     \<lparr>status = 401, error = ''Unauthorized'', body_message = ''Authentication token required'',
      body_details = None\<rparr> \<and>
   errorHandler production (AppError ''Token expired'' 401 None) =
     \<lparr>status = 401, error = ''Unauthorized'', body_message = ''Token expired'',
      body_details = None\<rparr> \<and>
   errorHandler production (AppError ''Invalid token'' 403 None) =
     \<lparr>status = 403, error = ''Forbidden'', body_message = ''Invalid token'',
      body_details = None\<rparr> \<and>
   ''Authentication token required'' \<noteq> ''Token expired'' \<and>
   ''Authentication token required'' \<noteq> ''Invalid token'' \<and>
   ''Token expired'' \<noteq> ''Invalid token''"
  by (auto simp: protected_route_status_def authenticateToken_def truthy_str_def
      errorHandler_AppError_status Let_def errorHandler_def AppError_def getErrorName_def)

theorem auth_gate_statuses_witness:
  "authenticateToken reject_signature None =
     Inl (AppError ''Authentication token required'' 401 None) \<and>
   authenticateToken reject_signature (Some ''Bearer'') =
     Inl (AppError ''Authentication token required'' 401 None) \<and>
   authenticateToken reject_expired (Some ''Bearer abc'') =
     Inl (AppError ''Token expired'' 401 None) \<and>
   authenticateToken reject_signature (Some ''Bearer abc'') =
     Inl (AppError ''Invalid token'' 403 None) \<and>
   authenticateToken accept_token (Some ''Bearer abc'') = Inr () \<and>
   protected_route_status True reject_signature None = Some 401 \<and>
   protected_route_status True reject_signature (Some ''Bearer'') = Some 401 \<and>
   protected_route_status True reject_expired (Some ''Bearer abc'') = Some 401 \<and>
   protected_route_status True reject_signature (Some ''Bearer abc'') = Some 403 \<and>
   protected_route_status True accept_token (Some ''Bearer abc'') = None"
proof -
  have tok: "bearer_token (Some ''Bearer abc'') = Some ''abc''"
    by (simp add: bearer_token_def nth_opt_def)
  have none: "\<not> truthy_str (bearer_token None)" "\<not> truthy_str (bearer_token (Some ''Bearer''))"
    by (simp_all add: bearer_token_def nth_opt_def truthy_str_def)
  have e: "reject_expired ''abc'' = VerifyError ''TokenExpiredError''"
    by (simp add: reject_expired_def)
  have s: "reject_signature ''abc'' = VerifyError ''JsonWebTokenError''"
    by (simp add: reject_signature_def)
  have a: "accept_token ''abc'' = Verified ()"
    by (simp add: accept_token_def)
  show ?thesis
    using auth_gate_statuses[where authHeader = None and production = True
          and jwt_verify = reject_signature]
      auth_gate_statuses[where authHeader = "Some ''Bearer''" and production = True
          and jwt_verify = reject_signature]
      auth_gate_statuses[where authHeader = "Some ''Bearer abc''" and token = "''abc''"
          and production = True and jwt_verify = reject_expired]
      auth_gate_statuses[where authHeader = "Some ''Bearer abc''" and token = "''abc''"
          and production = True and jwt_verify = reject_signature and nm = "''JsonWebTokenError''"]
      auth_gate_statuses[where authHeader = "Some ''Bearer abc''" and token = "''abc''"
          and production = True and jwt_verify = accept_token and user = "()"]
      tok none e s a
    by simp
qed

section \<open>Summarization: results\<close>

lemma errorHandler_Error_status: "status (errorHandler production (Error msg)) = 500"
  by (simp add: errorHandler_def Error_def Let_def)

lemma generateMockSummary_mock: "mock (generateMockSummary URL_hostname u) = True"
  by (simp add: generateMockSummary_def Let_def)

text \<open>
  C7, as stated: when the external call times out, the mock summary is returned and no
  error reaches the caller. With a key configured and a provider that times out,
  \<open>summarizeArticle\<close> throws.
\<close>

theorem summarize_timeout_counterexample:
  "summarizeArticle example_hostname None (Some ''pplx-key'') provider_timeout
     ''https://www.example.com/article'' 200 =
     Inl (Error ''Request timeout. The article may be too large or unavailable.'') \<and>
   summarizeArticle example_hostname None (Some ''pplx-key'') provider_timeout
     ''https://www.example.com/article'' 200 \<noteq>
     Inr (generateMockSummary example_hostname ''https://www.example.com/article'')"
  by (simp add: summarizeArticle_def truthy_str_def provider_timeout_def)

text \<open>
  C7, amended. With mock mode on or no API key, \<open>summarizeArticle\<close> returns the mock
  summary (headline \<open>Breaking News from\<close> the URL's domain, the fixed summary text,
  keywords and read time, the URL as source, \<open>mock\<close> set) and throws nothing. With a key
  and mock mode off: what the provider's answer yields is returned; when the external
  call fails with anything but a 429 answer, a 401 answer or a timeout (\<open>ECONNABORTED\<close>),
  the same mock summary is returned; on a 429 answer the error \<open>Rate limit exceeded.
  Please try again later.\<close> is thrown, on a 401 answer \<open>Invalid Perplexity API key\<close>, on
  a timeout \<open>Request timeout. The article may be too large or unavailable.\<close>; each of
  the three is answered by the error handler with status 500.
\<close>

theorem summarize_fallback:
  "(env_MOCK_MODE = Some ''true'' \<or> \<not> truthy_str env_API_KEY \<longrightarrow>
      summarizeArticle URL_hostname env_MOCK_MODE env_API_KEY provider u maxLength =
        Inr (generateMockSummary URL_hostname u)) \<and>
   (provider u maxLength = Threw err \<and> response_status err \<noteq> Some 429 \<and>
    response_status err \<noteq> Some 401 \<and> error_code err \<noteq> Some ''ECONNABORTED'' \<longrightarrow>
      summarizeArticle URL_hostname env_MOCK_MODE env_API_KEY provider u maxLength =
        Inr (generateMockSummary URL_hostname u)) \<and>
   (env_MOCK_MODE \<noteq> Some ''true'' \<and> truthy_str env_API_KEY \<and>
    provider u maxLength = Returned answer \<longrightarrow>
      summarizeArticle URL_hostname env_MOCK_MODE env_API_KEY provider u maxLength = Inr answer) \<and>
   (env_MOCK_MODE \<noteq> Some ''true'' \<and> truthy_str env_API_KEY \<and> provider u maxLength = Threw err \<and>
    response_status err = Some 429 \<longrightarrow>
      summarizeArticle URL_hostname env_MOCK_MODE env_API_KEY provider u maxLength =
        Inl (Error ''Rate limit exceeded. Please try again later.'')) \<and>
   (env_MOCK_MODE \<noteq> Some ''true'' \<and> truthy_str env_API_KEY \<and> provider u maxLength = Threw err \<and>
    response_status err = Some 401 \<longrightarrow>
      summarizeArticle URL_hostname env_MOCK_MODE env_API_KEY provider u maxLength =
        Inl (Error ''Invalid Perplexity API key'')) \<and>
   (env_MOCK_MODE \<noteq> Some ''true'' \<and> truthy_str env_API_KEY \<and> provider u maxLength = Threw err \<and>
    response_status err \<noteq> Some 429 \<and> response_status err \<noteq> Some 401 \<and>
    error_code err = Some ''ECONNABORTED'' \<longrightarrow>
      summarizeArticle URL_hostname env_MOCK_MODE env_API_KEY provider u maxLength =
        Inl (Error ''Request timeout. The article may be too large or unavailable.'')) \<and>
   status (errorHandler production (Error ''Rate limit exceeded. Please try again later.'')) = 500 \<and>
   status (errorHandler production (Error ''Invalid Perplexity API key'')) = 500 \<and>
   status (errorHandler production
     (Error ''Request timeout. The article may be too large or unavailable.'')) = 500 \<and>
   generateMockSummary URL_hostname u =
     \<lparr>headline = ''Breaking News from '' @ extractDomain URL_hostname u,
      summaryText = ''This is a mock summary generated for demonstration purposes. In production, this would contain actual article content extracted via Perplexity AI.'',
      keywordList = [''technology'', ''innovation'', ''news''],
      readTime = ''3 min'', source = u, mock = True\<rparr> \<and>
   extractDomain URL_hostname u =
     (case URL_hostname u of
        Some hostname \<Rightarrow> replace_first ''www.'' [] hostname
      | None \<Rightarrow> ''Unknown Source'')"
  by (auto simp: summarizeArticle_def errorHandler_Error_status generateMockSummary_def
      extractDomain_def Let_def)

theorem summarize_fallback_witness:
  "summarizeArticle example_hostname None None provider_timeout
     ''https://www.example.com/article'' 200 =
     Inr (generateMockSummary example_hostname ''https://www.example.com/article'') \<and>
   summarizeArticle example_hostname (Some ''true'') (Some ''pplx-key'') provider_timeout
     ''https://www.example.com/article'' 200 =
     Inr (generateMockSummary example_hostname ''https://www.example.com/article'') \<and>
   summarizeArticle example_hostname None (Some ''pplx-key'') provider_unavailable
     ''https://www.example.com/article'' 200 =
     Inr (generateMockSummary example_hostname ''https://www.example.com/article'') \<and>
   summarizeArticle example_hostname None (Some ''pplx-key'') provider_answers
     ''https://www.example.com/article'' 200 =
     Inr \<lparr>headline = ''AI in Healthcare'', summaryText = ''Models detect diseases earlier.'',
          keywordList = [''ai'', ''health''], readTime = ''1 min'',
          source = ''https://www.example.com/article'', mock = False\<rparr> \<and>
   summarizeArticle example_hostname None (Some ''pplx-key'') provider_rate_limited
     ''https://www.example.com/article'' 200 =
     Inl (Error ''Rate limit exceeded. Please try again later.'') \<and>
   summarizeArticle example_hostname None (Some ''pplx-key'') provider_unauthorized
     ''https://www.example.com/article'' 200 =
     Inl (Error ''Invalid Perplexity API key'') \<and>
   summarizeArticle example_hostname None (Some ''pplx-key'') provider_timeout
     ''https://www.example.com/article'' 200 =
     Inl (Error ''Request timeout. The article may be too large or unavailable.'') \<and>
   status (errorHandler True (Error ''Rate limit exceeded. Please try again later.'')) = 500 \<and>
   headline (generateMockSummary example_hostname ''https://www.example.com/article'') =
     ''Breaking News from example.com'' \<and>
   mock (generateMockSummary example_hostname ''https://www.example.com/article'')"
proof -
  let ?u = "''https://www.example.com/article''"
  have k: "\<not> truthy_str None" "truthy_str (Some ''pplx-key'')"
    by (simp_all add: truthy_str_def)
  have p: "provider_unavailable ?u 200 =
             Threw \<lparr>response_status = Some 503, error_code = Some ''ERR_BAD_RESPONSE''\<rparr>"
      "provider_rate_limited ?u 200 =
             Threw \<lparr>response_status = Some 429, error_code = Some ''ERR_BAD_REQUEST''\<rparr>"
      "provider_unauthorized ?u 200 =
             Threw \<lparr>response_status = Some 401, error_code = Some ''ERR_BAD_REQUEST''\<rparr>"
      "provider_timeout ?u 200 =
             Threw \<lparr>response_status = None, error_code = Some ''ECONNABORTED''\<rparr>"
      "provider_answers ?u 200 =
             Returned \<lparr>headline = ''AI in Healthcare'',
               summaryText = ''Models detect diseases earlier.'',
               keywordList = [''ai'', ''health''], readTime = ''1 min'', source = ?u,
               mock = False\<rparr>"
    by (simp_all add: provider_unavailable_def provider_rate_limited_def
        provider_unauthorized_def provider_timeout_def provider_answers_def)
  have d: "example_hostname ?u = Some ''www.example.com''"
    by (simp add: example_hostname_def)
  have m1: "summarizeArticle example_hostname None None provider_timeout ?u 200 =
              Inr (generateMockSummary example_hostname ?u)"
    using summarize_fallback[where env_MOCK_MODE = None and env_API_KEY = None
          and URL_hostname = example_hostname and provider = provider_timeout
          and u = ?u and maxLength = 200] k
    by simp
  have m2: "summarizeArticle example_hostname (Some ''true'') (Some ''pplx-key'') provider_timeout
              ?u 200 = Inr (generateMockSummary example_hostname ?u)"
    using summarize_fallback[where env_MOCK_MODE = "Some ''true''"
          and env_API_KEY = "Some ''pplx-key''"
          and URL_hostname = example_hostname and provider = provider_timeout
          and u = ?u and maxLength = 200]
    by simp
  have m3: "summarizeArticle example_hostname None (Some ''pplx-key'') provider_unavailable ?u 200 =
              Inr (generateMockSummary example_hostname ?u)"
    using summarize_fallback[where env_MOCK_MODE = None and env_API_KEY = "Some ''pplx-key''"
          and URL_hostname = example_hostname and provider = provider_unavailable
          and u = ?u and maxLength = 200
          and err = "\<lparr>response_status = Some 503, error_code = Some ''ERR_BAD_RESPONSE''\<rparr>"]
      p(1)
    by simp
  have m4: "summarizeArticle example_hostname None (Some ''pplx-key'') provider_answers ?u 200 =
              Inr \<lparr>headline = ''AI in Healthcare'', summaryText = ''Models detect diseases earlier.'',
                keywordList = [''ai'', ''health''], readTime = ''1 min'', source = ?u,
                mock = False\<rparr>"
    using summarize_fallback[where env_MOCK_MODE = None and env_API_KEY = "Some ''pplx-key''"
          and URL_hostname = example_hostname and provider = provider_answers
          and u = ?u and maxLength = 200
          and answer = "\<lparr>headline = ''AI in Healthcare'',
                summaryText = ''Models detect diseases earlier.'',
                keywordList = [''ai'', ''health''], readTime = ''1 min'', source = ?u,
                mock = False\<rparr>"]
      k p(5)
    by simp
  have e1: "summarizeArticle example_hostname None (Some ''pplx-key'') provider_rate_limited ?u 200 =
              Inl (Error ''Rate limit exceeded. Please try again later.'') \<and>
            status (errorHandler True (Error ''Rate limit exceeded. Please try again later.'')) = 500"
    using summarize_fallback[where env_MOCK_MODE = None and env_API_KEY = "Some ''pplx-key''"
          and URL_hostname = example_hostname and provider = provider_rate_limited
          and u = ?u and maxLength = 200 and production = True
          and err = "\<lparr>response_status = Some 429, error_code = Some ''ERR_BAD_REQUEST''\<rparr>"]
      k p(2)
    by simp
  have e2: "summarizeArticle example_hostname None (Some ''pplx-key'') provider_unauthorized ?u 200 =
              Inl (Error ''Invalid Perplexity API key'')"
    using summarize_fallback[where env_MOCK_MODE = None and env_API_KEY = "Some ''pplx-key''"
          and URL_hostname = example_hostname and provider = provider_unauthorized
          and u = ?u and maxLength = 200
          and err = "\<lparr>response_status = Some 401, error_code = Some ''ERR_BAD_REQUEST''\<rparr>"]
      k p(3)
    by simp
  have e3: "summarizeArticle example_hostname None (Some ''pplx-key'') provider_timeout ?u 200 =
              Inl (Error ''Request timeout. The article may be too large or unavailable.'')"
    using summarize_fallback[where env_MOCK_MODE = None and env_API_KEY = "Some ''pplx-key''"
          and URL_hostname = example_hostname and provider = provider_timeout
          and u = ?u and maxLength = 200
          and err = "\<lparr>response_status = None, error_code = Some ''ECONNABORTED''\<rparr>"]
      k p(4)
    by simp
  have h: "headline (generateMockSummary example_hostname ?u) = ''Breaking News from example.com'' \<and>
           mock (generateMockSummary example_hostname ?u)"
    using summarize_fallback[where URL_hostname = example_hostname and u = ?u] d
    by simp
  show ?thesis
    using m1 m2 m3 m4 e1 e2 e3 h by simp
qed

section \<open>Public content fetch: results\<close>

lemma errorHandler_AppError_details:
  "sc \<noteq> 0 \<Longrightarrow> sc \<noteq> 500 \<Longrightarrow> body_details (errorHandler production (AppError msg sc det)) = det"
  by (simp add: errorHandler_def AppError_def Let_def)

lemma trim_blank: "trim '' '' = []"
  by (simp add: trim_def js_whitespace_def)

lemma trim_no_break_space: "trim [CHR 0xC2, CHR 0xA0] = []"
  by (simp add: trim_def js_whitespace_def)

lemma trim_unicode_spaces:
  "trim ([CHR 0xE2, CHR 0x80, CHR 0x83] @ ''marker-x'' @ [CHR 0xEF, CHR 0xBB, CHR 0xBF, CHR 0x09]) =
     ''marker-x''"
  by (simp add: trim_def js_whitespace_def)

text \<open>
  C3, as stated: for every markerId with no record the fetch signals 404. A markerId of
  one space has no record, and the fetch answers 400: the route trims the parameter and
  rejects an empty one before it looks anything up. The same holds of a markerId that is
  one no-break space (U+00A0, the bytes C2 A0).
\<close>

theorem content_fetch_blank_marker_counterexample:
  "getContent example_env (empty_database sqliteAdapter) '' '' = Inr None \<and>
   content_get_handler example_env (empty_database sqliteAdapter) '' '' =
     Inl (AppError ''Validation failed'' 400 (Some (ValidationErrors [''Marker ID is required'']))) \<and>
   getContent example_env (empty_database sqliteAdapter) [CHR 0xC2, CHR 0xA0] = Inr None \<and>
   content_get_handler example_env (empty_database sqliteAdapter) [CHR 0xC2, CHR 0xA0] =
     Inl (AppError ''Validation failed'' 400 (Some (ValidationErrors [''Marker ID is required'']))) \<and>
   status (errorHandler False
     (AppError ''Validation failed'' 400 (Some (ValidationErrors [''Marker ID is required''])))) = 400"
  by (simp add: content_get_handler_def validate_markerId_def trim_blank trim_no_break_space
      getContent_def empty_database_def sqlite_getContent_def errorHandler_AppError_status)

text \<open>
  C3, amended. A markerId that is empty once trimmed of whitespace is rejected with the
  validation error, answered 400. For every other markerId, looked up trimmed: no record
  throws \<open>Content not found for marker: ...\<close>, answered 404; a record whose \<open>expiresAt\<close> is
  a date strictly before now throws \<open>Content has expired\<close> with that \<open>expiresAt\<close> as its
  details, answered 410, a status other than 404, with the details in the body; a record
  whose \<open>expiresAt\<close> is absent, empty, not a date, or a date not before now is returned;
  an error of the storage call is passed on.
\<close>

theorem content_fetch_outcomes:
  "(trim raw = [] \<longrightarrow>
      content_get_handler e db raw =
        Inl (AppError ''Validation failed'' 400
               (Some (ValidationErrors [''Marker ID is required''])))) \<and>
   (trim raw \<noteq> [] \<and> getContent e db (trim raw) = Inr None \<longrightarrow>
      content_get_handler e db raw =
        Inl (AppError (''Content not found for marker: '' @ trim raw) 404 None)) \<and>
   (trim raw \<noteq> [] \<and> getContent e db (trim raw) = Inr (Some c) \<and> expiresAt c = Some x \<and>
    x \<noteq> [] \<and> Date_parse e x = Some t \<and> t < now_ms e \<longrightarrow>
      content_get_handler e db raw =
        Inl (AppError ''Content has expired'' 410 (Some (ExpiresAtDetail x)))) \<and>
   (trim raw \<noteq> [] \<and> getContent e db (trim raw) = Inr (Some c) \<and>
    (expiresAt c = None \<or> expiresAt c = Some [] \<or> Date_parse e (the (expiresAt c)) = None \<or>
     (\<exists>t. Date_parse e (the (expiresAt c)) = Some t \<and> now_ms e \<le> t)) \<longrightarrow>
      content_get_handler e db raw = Inr c) \<and>
   (trim raw \<noteq> [] \<and> getContent e db (trim raw) = Inl err \<longrightarrow>
      content_get_handler e db raw = Inl err) \<and>
   status (errorHandler production
     (AppError ''Validation failed'' 400 (Some (ValidationErrors [''Marker ID is required''])))) = 400 \<and>
   status (errorHandler production
     (AppError (''Content not found for marker: '' @ trim raw) 404 None)) = 404 \<and>
   status (errorHandler production
     (AppError ''Content has expired'' 410 (Some (ExpiresAtDetail x)))) = 410 \<and>
   body_message (errorHandler production
     (AppError ''Content has expired'' 410 (Some (ExpiresAtDetail x)))) = ''Content has expired'' \<and>
   body_details (errorHandler production
     (AppError ''Content has expired'' 410 (Some (ExpiresAtDetail x)))) = Some (ExpiresAtDetail x)"
  by (auto simp: content_get_handler_def validate_markerId_def is_expired_def truthy_str_def
      errorHandler_AppError_status errorHandler_AppError_details errorHandler_AppError_message
      Let_def split: option.splits)

lemma example_store_eval:
  "getContent example_env example_sqlite_store ''marker-none'' = Inr None"
  "\<exists>c. getContent example_env example_sqlite_store ''marker-old'' = Inr (Some c) \<and>
       expiresAt c = Some ''2024-01-01T00:00:00.000Z''"
  "\<exists>c. getContent example_env example_sqlite_store ''marker-live'' = Inr (Some c) \<and>
       expiresAt c = Some ''2030-01-01T00:00:00.000Z''"
  "\<exists>c. getContent example_env example_sqlite_store ''marker-plain'' = Inr (Some c) \<and>
       expiresAt c = None"
  by (simp_all add: example_sqlite_store_def stored_def setContent_def sqlite_setContent_def
      empty_database_def upsert_row_def excluded_row_def news_input_def getContent_def
      sqlite_getContent_def parseContentRow_def example_env_def or_null_def truthy_str_def
      example_stringify_def example_parse_def example_style_json_def quoted_def Let_def)

lemma example_trims:
  "trim ''marker-none'' = ''marker-none''" "trim ''marker-old'' = ''marker-old''"
  "trim ''marker-live'' = ''marker-live''" "trim '' marker-plain '' = ''marker-plain''"
  by (simp_all add: trim_def js_whitespace_def)

theorem content_fetch_outcomes_witness:
  "trim '' marker-plain '' \<noteq> [] \<and>
   content_get_handler example_env example_sqlite_store ''marker-none'' =
     Inl (AppError ''Content not found for marker: marker-none'' 404 None) \<and>
   status (errorHandler True (AppError ''Content not found for marker: marker-none'' 404 None)) = 404 \<and>
   content_get_handler example_env example_sqlite_store ''marker-old'' =
     Inl (AppError ''Content has expired'' 410
            (Some (ExpiresAtDetail ''2024-01-01T00:00:00.000Z''))) \<and>
   status (errorHandler True (AppError ''Content has expired'' 410
            (Some (ExpiresAtDetail ''2024-01-01T00:00:00.000Z'')))) = 410 \<and>
   body_details (errorHandler True (AppError ''Content has expired'' 410
            (Some (ExpiresAtDetail ''2024-01-01T00:00:00.000Z'')))) =
     Some (ExpiresAtDetail ''2024-01-01T00:00:00.000Z'') \<and>
   (\<exists>c. content_get_handler example_env example_sqlite_store ''marker-live'' = Inr c \<and>
        expiresAt c = Some ''2030-01-01T00:00:00.000Z'') \<and>
   (\<exists>c. content_get_handler example_env example_sqlite_store '' marker-plain '' = Inr c \<and>
        expiresAt c = None) \<and>
   content_get_handler example_env example_sqlite_store [CHR 0xC2, CHR 0xA0] =
     Inl (AppError ''Validation failed'' 400 (Some (ValidationErrors [''Marker ID is required''])))"
proof -
  obtain c1 where c1: "getContent example_env example_sqlite_store ''marker-old'' = Inr (Some c1)"
      "expiresAt c1 = Some ''2024-01-01T00:00:00.000Z''"
    using example_store_eval(2) by blast
  obtain c2 where c2: "getContent example_env example_sqlite_store ''marker-live'' = Inr (Some c2)"
      "expiresAt c2 = Some ''2030-01-01T00:00:00.000Z''"
    using example_store_eval(3) by blast
  obtain c3 where c3: "getContent example_env example_sqlite_store ''marker-plain'' = Inr (Some c3)"
      "expiresAt c3 = None"
    using example_store_eval(4) by blast
  have clock: "now_ms example_env = 1709294400000"
      "Date_parse example_env ''2024-01-01T00:00:00.000Z'' = Some 1704067200000"
      "Date_parse example_env ''2030-01-01T00:00:00.000Z'' = Some 1893456000000"
    by (simp_all add: example_env_def example_Date_parse_def)
  have none: "content_get_handler example_env example_sqlite_store ''marker-none'' =
       Inl (AppError ''Content not found for marker: marker-none'' 404 None) \<and>
     status (errorHandler True (AppError ''Content not found for marker: marker-none'' 404 None)) = 404"
    using content_fetch_outcomes[where raw = "''marker-none''" and e = example_env
        and db = example_sqlite_store and production = True]
      example_store_eval(1) example_trims
    by simp
  have old: "content_get_handler example_env example_sqlite_store ''marker-old'' =
       Inl (AppError ''Content has expired'' 410
              (Some (ExpiresAtDetail ''2024-01-01T00:00:00.000Z''))) \<and>
     status (errorHandler True (AppError ''Content has expired'' 410
              (Some (ExpiresAtDetail ''2024-01-01T00:00:00.000Z'')))) = 410 \<and>
     body_details (errorHandler True (AppError ''Content has expired'' 410
              (Some (ExpiresAtDetail ''2024-01-01T00:00:00.000Z'')))) =
       Some (ExpiresAtDetail ''2024-01-01T00:00:00.000Z'')"
    using content_fetch_outcomes[where raw = "''marker-old''" and e = example_env
        and db = example_sqlite_store and production = True and c = c1
        and x = "''2024-01-01T00:00:00.000Z''" and t = 1704067200000]
      c1 clock example_trims
    by simp
  have live: "content_get_handler example_env example_sqlite_store ''marker-live'' = Inr c2"
    using content_fetch_outcomes[where raw = "''marker-live''" and e = example_env
        and db = example_sqlite_store and c = c2]
      c2 clock example_trims
    by simp
  have plain: "content_get_handler example_env example_sqlite_store '' marker-plain '' = Inr c3"
    using content_fetch_outcomes[where raw = "'' marker-plain ''" and e = example_env
        and db = example_sqlite_store and c = c3]
      c3 example_trims
    by simp
  have blank: "content_get_handler example_env example_sqlite_store [CHR 0xC2, CHR 0xA0] =
       Inl (AppError ''Validation failed'' 400 (Some (ValidationErrors [''Marker ID is required''])))"
    using content_fetch_outcomes[where raw = "[CHR 0xC2, CHR 0xA0]" and e = example_env
        and db = example_sqlite_store]
      trim_no_break_space
    by simp
  show ?thesis
    using none old live plain blank c2 c3 example_trims by auto
qed

section \<open>Deleting content: results\<close>

lemma find_filter_None:
  "find P xs = None \<longleftrightarrow> filter P xs = []"
  by (induction xs) auto

lemma sqlite_delete_absent:
  assumes "find (\<lambda>r. marker_id r = mid) (content_table s) = None"
  shows "sqlite_deleteContent s mid = (s, False)"
proof -
  have "filter (\<lambda>r. marker_id r = mid) (content_table s) = []"
    using assms by (simp add: find_filter_None)
  moreover from this have "filter (\<lambda>r. marker_id r \<noteq> mid) (content_table s) = content_table s"
    by (simp add: filter_empty_conv filter_id_conv)
  ultimately show ?thesis by (simp add: sqlite_deleteContent_def)
qed

lemma sqlite_delete_then_get:
  "sqlite_getContent e (fst (sqlite_deleteContent s mid)) mid = Inr None"
proof -
  have "find (\<lambda>r. marker_id r = mid) (filter (\<lambda>r. marker_id r \<noteq> mid) (content_table s)) = None"
    by (simp add: find_filter_None filter_empty_conv)
  then show ?thesis by (simp add: sqlite_getContent_def sqlite_deleteContent_def Let_def)
qed

lemma sqlite_delete_existing:
  assumes "find (\<lambda>r. marker_id r = mid) (content_table s) = Some row"
  shows "snd (sqlite_deleteContent s mid) = True"
proof -
  have "filter (\<lambda>r. marker_id r = mid) (content_table s) \<noteq> []"
    using assms find_filter_None[of "\<lambda>r. marker_id r = mid" "content_table s"] by simp
  then show ?thesis by (simp add: sqlite_deleteContent_def Let_def)
qed

lemma firebase_delete_then_get:
  "firebase_getContent (fst (firebase_deleteContent f mid)) mid = None"
  by (simp add: firebase_getContent_def firebase_deleteContent_def)

lemma sqlite_delete_handler_absent:
  assumes "authenticateToken jwt_verify h = Inr user"
    and "getContent e (SqliteDb s) (trim raw) = Inr None"
  shows "\<exists>err. content_delete_handler jwt_verify h (SqliteDb s) raw = Inl err \<and>
           status (errorHandler production err) = 404"
proof -
  have "find (\<lambda>r. marker_id r = trim raw) (content_table s) = None"
    using assms(2)
    by (auto simp: getContent_def sqlite_getContent_def split: option.splits sum.splits)
  then have "deleteContent (SqliteDb s) (trim raw) = Inr (SqliteDb s, False)"
    by (simp add: deleteContent_def sqlite_delete_absent)
  then show ?thesis
    using assms(1)
    by (simp add: content_delete_handler_def errorHandler_AppError_status)
qed

lemma sqlite_delete_absent_response:
  "content_delete_response False accept_token (Some ''Bearer abc'')
     (empty_database sqliteAdapter) ''marker-x'' = (404, ''Content not found'')"
  by (simp add: content_delete_response_def content_delete_handler_def authenticateToken_def
      bearer_token_def nth_opt_def truthy_str_def accept_token_def trim_def js_whitespace_def
      deleteContent_def sqlite_deleteContent_def empty_database_def
      errorHandler_AppError_status errorHandler_AppError_message)

text \<open>
  C5: deleting a marker that has no record signals 404, on every adapter. On the Firebase
  adapter \<open>deleteContent\<close> resolves to \<open>{ deleted: true }\<close> whatever the store holds, so the
  route answers 200 for a marker that was never stored; the SQLite adapter reports
  \<open>deleted: false\<close> there and the route answers 404 (\<open>sqlite_delete_absent_response\<close>,
  \<open>sqlite_delete_handler_absent\<close>). The second half of the claim holds on both adapters
  (\<open>sqlite_delete_then_get\<close>, \<open>firebase_delete_then_get\<close>).
\<close>

theorem firebase_delete_absent_reports_success:
  "getContent example_env (empty_database firebaseAdapter) ''marker-x'' = Inr None \<and>
   snd (firebase_deleteContent \<lparr>content_docs = Map.empty, analytics_docs = []\<rparr> ''marker-x'') = True \<and>
   content_delete_response False accept_token (Some ''Bearer abc'')
     (empty_database firebaseAdapter) ''marker-x'' =
     (200, ''Content deleted for marker: marker-x'')"
  by (simp add: content_delete_response_def content_delete_handler_def authenticateToken_def
      bearer_token_def nth_opt_def truthy_str_def accept_token_def trim_def js_whitespace_def
      deleteContent_def firebase_deleteContent_def empty_database_def getContent_def
      firebase_getContent_def)

section \<open>Storing content: results\<close>

lemma find_upsert_row:
  "find (\<lambda>r. marker_id r = marker_id new) (upsert_row new rows) =
     Some (new\<lparr>created_at :=
        (case find (\<lambda>r. marker_id r = marker_id new) rows of
           None \<Rightarrow> created_at new
         | Some r \<Rightarrow> created_at r)\<rparr>)"
proof (cases "list_ex (\<lambda>r. marker_id r = marker_id new) rows")
  case True
  then show ?thesis
    unfolding upsert_row_def
    by (induction rows) (auto)
next
  case False
  then have "find (\<lambda>r. marker_id r = marker_id new) rows = None"
    by (induction rows) auto
  with False show ?thesis
    unfolding upsert_row_def
    by (induction rows) (auto)
qed

lemma find_append_conv:
  "find P (xs @ ys) = (case find P xs of None \<Rightarrow> find P ys | Some x \<Rightarrow> Some x)"
  by (induction xs) auto

lemma find_map_other:
  "mid \<noteq> marker_id new \<Longrightarrow>
   find (\<lambda>r. marker_id r = mid)
     (map (\<lambda>r. if marker_id r = marker_id new then new\<lparr>created_at := created_at r\<rparr> else r) rows) =
   find (\<lambda>r. marker_id r = mid) rows"
  by (induction rows) auto

lemma find_upsert_row_other:
  "mid \<noteq> marker_id new \<Longrightarrow>
   find (\<lambda>r. marker_id r = mid) (upsert_row new rows) = find (\<lambda>r. marker_id r = mid) rows"
  by (simp add: upsert_row_def find_map_other find_append_conv split: option.splits)

lemma map_marker_id_upsert_row:
  "map marker_id (upsert_row new rows) =
     (if list_ex (\<lambda>r. marker_id r = marker_id new) rows then map marker_id rows
      else map marker_id rows @ [marker_id new])"
  unfolding upsert_row_def by (induction rows) auto

lemma distinct_upsert_row:
  "distinct (map marker_id rows) \<Longrightarrow> distinct (map marker_id (upsert_row new rows))"
  by (auto simp: map_marker_id_upsert_row list_ex_iff)

lemma filter_key_none:
  "k \<notin> set (map marker_id xs) \<Longrightarrow> filter (\<lambda>r. marker_id r = k) xs = []"
  by (induction xs) auto

lemma filter_key_once:
  "distinct (map marker_id xs) \<Longrightarrow> k \<in> set (map marker_id xs) \<Longrightarrow>
   length (filter (\<lambda>r. marker_id r = k) xs) = 1"
proof (induction xs)
  case Nil
  then show ?case by simp
next
  case (Cons x xs)
  show ?case
  proof (cases "marker_id x = k")
    case True
    with Cons.prems have "k \<notin> set (map marker_id xs)" by auto
    then have "filter (\<lambda>r. marker_id r = k) xs = []" by (rule filter_key_none)
    with True show ?thesis by simp
  next
    case False
    with Cons show ?thesis by auto
  qed
qed

lemma count_upsert_row:
  assumes "distinct (map marker_id rows)"
  shows "length (filter (\<lambda>r. marker_id r = marker_id new) (upsert_row new rows)) = 1"
proof -
  have d: "distinct (map marker_id (upsert_row new rows))"
    using assms by (rule distinct_upsert_row)
  have m: "marker_id new \<in> set (map marker_id (upsert_row new rows))"
  proof (cases "list_ex (\<lambda>r. marker_id r = marker_id new) rows")
    case True
    then obtain r where "r \<in> set rows" "marker_id r = marker_id new"
      by (auto simp: list_ex_iff)
    then have "marker_id new \<in> set (map marker_id rows)"
      by (metis image_eqI set_map)
    with True show ?thesis by (simp add: map_marker_id_upsert_row)
  next
    case False
    then show ?thesis by (simp add: map_marker_id_upsert_row)
  qed
  show ?thesis
    using d m by (rule filter_key_once)
qed

lemma upsert_row_idem: "upsert_row new (upsert_row new rows) = upsert_row new rows"
proof (cases "list_ex (\<lambda>r. marker_id r = marker_id new) rows")
  case True
  then have "list_ex (\<lambda>r. marker_id r = marker_id new) (upsert_row new rows)"
    unfolding upsert_row_def by (induction rows) auto
  then show ?thesis
    using True unfolding upsert_row_def by (auto simp: list_ex_iff)
next
  case False
  then have "map (\<lambda>r. if marker_id r = marker_id new then new\<lparr>created_at := created_at r\<rparr> else r) rows = rows"
    by (induction rows) auto
  then show ?thesis
    using False unfolding upsert_row_def by (auto simp: list_ex_iff)
qed

lemma or_null_idem: "or_null (or_null x) = or_null x"
  by (simp add: or_null_def truthy_str_def)

lemma parse_excluded_row:
  assumes "codec_ok e (style c)"
  shows "\<exists>got. parseContentRow e ((excluded_row e mid c)\<lparr>created_at := ca\<rparr>) = Inr got \<and>
           content_input.truncate got = null_empty_strings c \<and> markerId got = mid \<and>
           createdAt got = TextTime ca \<and> updatedAt got = TextTime (CURRENT_TIMESTAMP e)"
proof (cases "style c")
  case None
  then show ?thesis
    by (simp add: parseContentRow_def excluded_row_def null_empty_strings_def truthy_str_def
        content_input.defs)
next
  case (Some st)
  with assms have "JSON_stringify e st \<noteq> []" "JSON_parse e (JSON_stringify e st) = Some st"
    by (simp_all add: codec_ok_def)
  with Some show ?thesis
    by (simp add: parseContentRow_def excluded_row_def null_empty_strings_def truthy_str_def
        content_input.defs)
qed

lemma sqlite_get_after_set:
  assumes "codec_ok e (style c)"
  shows "\<exists>got. sqlite_getContent e (fst (sqlite_setContent e db mid c)) mid = Inr (Some got) \<and>
           content_input.truncate got = null_empty_strings c \<and> markerId got = mid \<and>
           updatedAt got = TextTime (CURRENT_TIMESTAMP e) \<and>
           createdAt got =
             TextTime (case find (\<lambda>r. marker_id r = mid) (content_table db) of
                         None \<Rightarrow> CURRENT_TIMESTAMP e
                       | Some r \<Rightarrow> created_at r)"
proof -
  let ?new = "excluded_row e mid c"
  let ?ca = "case find (\<lambda>r. marker_id r = mid) (content_table db) of
               None \<Rightarrow> CURRENT_TIMESTAMP e | Some r \<Rightarrow> created_at r"
  have k: "marker_id ?new = mid" "created_at ?new = CURRENT_TIMESTAMP e"
    by (simp_all add: excluded_row_def)
  have f: "find (\<lambda>r. marker_id r = mid) (upsert_row ?new (content_table db)) =
             Some (?new\<lparr>created_at := ?ca\<rparr>)"
    using find_upsert_row[of ?new "content_table db"] k by (simp cong: option.case_cong)
  obtain got where g: "parseContentRow e (?new\<lparr>created_at := ?ca\<rparr>) = Inr got"
      "content_input.truncate got = null_empty_strings c" "markerId got = mid"
      "createdAt got = TextTime ?ca" "updatedAt got = TextTime (CURRENT_TIMESTAMP e)"
    using parse_excluded_row[OF assms, where mid = mid and ca = ?ca] by blast
  have "sqlite_getContent e (fst (sqlite_setContent e db mid c)) mid = Inr (Some got)"
    by (simp add: sqlite_getContent_def sqlite_setContent_def f g(1))
  with g show ?thesis by blast
qed

lemma or_null_id: "x \<noteq> Some [] \<Longrightarrow> or_null x = x"
  by (cases x) (auto simp: or_null_def truthy_str_def)

lemma null_empty_strings_id: "no_empty_strings c \<Longrightarrow> null_empty_strings c = c"
  by (simp add: no_empty_strings_def null_empty_strings_def or_null_id)

lemma length_upsert_row_present:
  "list_ex (\<lambda>r. marker_id r = marker_id new) rows \<Longrightarrow> length (upsert_row new rows) = length rows"
  by (simp add: upsert_row_def)

lemma list_ex_upsert_row: "list_ex (\<lambda>r. marker_id r = marker_id new) (upsert_row new rows)"
proof -
  have "find (\<lambda>r. marker_id r = marker_id new) (upsert_row new rows) \<noteq> None"
    by (simp add: find_upsert_row)
  then show ?thesis
    by (auto simp: find_None_iff list_ex_iff)
qed

text \<open>
  C6: \<open>getContent\<close> after \<open>setContent\<close> returns the fields of the input, empty strings
  included. On the SQLite adapter an input whose \<open>summary\<close> is the empty string, which
  the route's validators accept, reads back with \<open>summary\<close> null: every optional column
  is bound as \<open>value || null\<close>. The Firebase adapter returns the empty string
  (\<open>firebase_setContent_keeps_empty_string\<close>).
\<close>

theorem sqlite_setContent_drops_empty_string:
  "sqlite_getContent example_env
     (fst (sqlite_setContent example_env empty_sqlite ''marker-plain''
        (news_input\<lparr>summary := Some []\<rparr>))) ''marker-plain'' =
   Inr (Some \<lparr>type = ''news'', title = Some ''Welcome to PortalAR!'', summary = None,
      url = None, videoUrl = None, posterUrl = None, modelUrl = None, imageUrl = None,
      ctaText = Some ''Learn More'', ctaUrl = None, style = Some example_style, expiresAt = None,
      markerId = ''marker-plain'', createdAt = TextTime ''2024-03-01 12:00:00'',
      updatedAt = TextTime ''2024-03-01 12:00:00''\<rparr>) \<and>
   summary (news_input\<lparr>summary := Some []\<rparr>) = Some []"
  by (simp add: sqlite_getContent_def sqlite_setContent_def empty_sqlite_def upsert_row_def
      excluded_row_def news_input_def parseContentRow_def example_env_def or_null_def
      truthy_str_def example_stringify_def example_parse_def example_style_json_def quoted_def)

lemma firebase_setContent_keeps_empty_string:
  "getContent example_env
     (stored (empty_database firebaseAdapter) ''marker-plain'' (news_input\<lparr>summary := Some []\<rparr>))
     ''marker-plain'' =
   Inr (Some \<lparr>type = ''news'', title = Some ''Welcome to PortalAR!'', summary = Some [],
      url = None, videoUrl = None, posterUrl = None, modelUrl = None, imageUrl = None,
      ctaText = Some ''Learn More'', ctaUrl = None, style = Some example_style, expiresAt = None,
      markerId = ''marker-plain'', createdAt = ServerTime 1709294400000,
      updatedAt = ServerTime 1709294400000\<rparr>)"
  by (simp add: stored_def setContent_def firebase_setContent_def empty_database_def
      news_input_def getContent_def firebase_getContent_def example_env_def)

text \<open>
  What does hold on the SQLite adapter. After \<open>setContent(markerId, input)\<close>,
  \<open>getContent(markerId)\<close> returns a record whose \<open>type\<close> and \<open>style\<close> are the input's and
  whose optional strings are the input's where these are non-empty and null where they
  are absent or empty; so an input without empty strings reads back as it is. Its
  \<open>updatedAt\<close> is the database clock of this upsert, and its \<open>createdAt\<close> that of the row
  it replaced, or the same clock when there was none. The records of the other markers
  are as before. Applying the same \<open>setContent\<close> again, at a later clock, leaves exactly
  one row for the markerId and the table as long as it was (at the same clock, the very
  same table), moves \<open>updatedAt\<close> to the later clock and keeps \<open>createdAt\<close>.
\<close>

theorem sqlite_setContent_roundtrip:
  assumes "primary_key_ok db" and "codec_ok e (style c)" and "codec_ok e2 (style c)"
    and "CURRENT_TIMESTAMP e \<le> CURRENT_TIMESTAMP e2"
    and "db1 = fst (sqlite_setContent e db mid c)"
    and "db2 = fst (sqlite_setContent e2 db1 mid c)"
  shows
   "(\<exists>got1 got2 u1 u2.
       sqlite_getContent e db1 mid = Inr (Some got1) \<and>
       sqlite_getContent e2 db2 mid = Inr (Some got2) \<and>
       content_input.truncate got1 = null_empty_strings c \<and>
       content_input.truncate got2 = null_empty_strings c \<and>
       markerId got1 = mid \<and> markerId got2 = mid \<and>
       updatedAt got1 = TextTime u1 \<and> updatedAt got2 = TextTime u2 \<and> u1 \<le> u2 \<and>
       u1 = CURRENT_TIMESTAMP e \<and> u2 = CURRENT_TIMESTAMP e2 \<and>
       createdAt got1 =
         TextTime (case find (\<lambda>r. marker_id r = mid) (content_table db) of
                     None \<Rightarrow> CURRENT_TIMESTAMP e
                   | Some r \<Rightarrow> created_at r) \<and>
       createdAt got2 = createdAt got1) \<and>
    (no_empty_strings c \<longrightarrow> null_empty_strings c = c) \<and>
    (other \<noteq> mid \<longrightarrow> sqlite_getContent e db1 other = sqlite_getContent e db other) \<and>
    primary_key_ok db1 \<and> primary_key_ok db2 \<and>
    length (filter (\<lambda>r. marker_id r = mid) (content_table db1)) = 1 \<and>
    length (filter (\<lambda>r. marker_id r = mid) (content_table db2)) = 1 \<and>
    length (content_table db2) = length (content_table db1) \<and>
    fst (sqlite_setContent e db1 mid c) = db1"
proof -
  let ?new = "excluded_row e mid c"
  let ?new2 = "excluded_row e2 mid c"
  have k: "marker_id ?new = mid" "marker_id ?new2 = mid"
    by (simp_all add: excluded_row_def)
  have t1: "content_table db1 = upsert_row ?new (content_table db)"
    and t2: "content_table db2 = upsert_row ?new2 (content_table db1)"
    using assms(5,6) by (simp_all add: sqlite_setContent_def)
  obtain got1 where g1: "sqlite_getContent e db1 mid = Inr (Some got1)"
      "content_input.truncate got1 = null_empty_strings c" "markerId got1 = mid"
      "updatedAt got1 = TextTime (CURRENT_TIMESTAMP e)"
      "createdAt got1 = TextTime (case find (\<lambda>r. marker_id r = mid) (content_table db) of
                         None \<Rightarrow> CURRENT_TIMESTAMP e | Some r \<Rightarrow> created_at r)"
    using sqlite_get_after_set[OF assms(2), where db = db and mid = mid] assms(5) by blast
  obtain got2 where g2: "sqlite_getContent e2 db2 mid = Inr (Some got2)"
      "content_input.truncate got2 = null_empty_strings c" "markerId got2 = mid"
      "updatedAt got2 = TextTime (CURRENT_TIMESTAMP e2)"
      "createdAt got2 = TextTime (case find (\<lambda>r. marker_id r = mid) (content_table db1) of
                         None \<Rightarrow> CURRENT_TIMESTAMP e2 | Some r \<Rightarrow> created_at r)"
    using sqlite_get_after_set[OF assms(3), where db = db1 and mid = mid] assms(6) by blast
  have f1: "find (\<lambda>r. marker_id r = mid) (content_table db1) =
              Some (?new\<lparr>created_at :=
                (case find (\<lambda>r. marker_id r = mid) (content_table db) of
                   None \<Rightarrow> created_at ?new | Some r \<Rightarrow> created_at r)\<rparr>)"
    using find_upsert_row[of ?new "content_table db"] k t1 by simp
  have c12: "createdAt got2 = createdAt got1"
    using g1(5) g2(5) f1 by (simp add: excluded_row_def cong: option.case_cong)
  have first: "\<exists>got1 got2 u1 u2.
       sqlite_getContent e db1 mid = Inr (Some got1) \<and>
       sqlite_getContent e2 db2 mid = Inr (Some got2) \<and>
       content_input.truncate got1 = null_empty_strings c \<and>
       content_input.truncate got2 = null_empty_strings c \<and>
       markerId got1 = mid \<and> markerId got2 = mid \<and>
       updatedAt got1 = TextTime u1 \<and> updatedAt got2 = TextTime u2 \<and> u1 \<le> u2 \<and>
       u1 = CURRENT_TIMESTAMP e \<and> u2 = CURRENT_TIMESTAMP e2 \<and>
       createdAt got1 =
         TextTime (case find (\<lambda>r. marker_id r = mid) (content_table db) of
                     None \<Rightarrow> CURRENT_TIMESTAMP e
                   | Some r \<Rightarrow> created_at r) \<and>
       createdAt got2 = createdAt got1"
    using g1 g2 c12 assms(4) by blast
  have others: "other \<noteq> mid \<longrightarrow> sqlite_getContent e db1 other = sqlite_getContent e db other"
    using find_upsert_row_other[of other ?new "content_table db"] k t1
    by (simp add: sqlite_getContent_def)
  have d0: "distinct (map marker_id (content_table db))"
    using assms(1) by (simp add: primary_key_ok_def)
  have d1: "distinct (map marker_id (content_table db1))"
    unfolding t1 using d0 by (rule distinct_upsert_row)
  have d2: "distinct (map marker_id (content_table db2))"
    unfolding t2 using d1 by (rule distinct_upsert_row)
  have n1: "length (filter (\<lambda>r. marker_id r = mid) (content_table db1)) = 1"
    using count_upsert_row[OF d0, of ?new] k t1 by simp
  have n2: "length (filter (\<lambda>r. marker_id r = mid) (content_table db2)) = 1"
    using count_upsert_row[OF d1, of ?new2] k t2 by simp
  have ex1: "list_ex (\<lambda>r. marker_id r = marker_id ?new2) (content_table db1)"
    using list_ex_upsert_row[of ?new "content_table db"] k t1 by simp
  have len: "length (content_table db2) = length (content_table db1)"
    unfolding t2 using ex1 by (rule length_upsert_row_present)
  have idem: "fst (sqlite_setContent e db1 mid c) = db1"
    using assms(5) by (simp add: sqlite_setContent_def upsert_row_idem)
  show ?thesis
    using first others d1 d2 n1 n2 len idem null_empty_strings_id[of c]
    by (simp add: primary_key_ok_def)
qed

theorem sqlite_setContent_roundtrip_witness:
  "primary_key_ok empty_sqlite \<and> codec_ok example_env (style news_input) \<and>
   codec_ok later_env (style news_input) \<and>
   CURRENT_TIMESTAMP example_env \<le> CURRENT_TIMESTAMP later_env \<and>
   no_empty_strings news_input \<and>
   (\<exists>got1 got2.
      sqlite_getContent example_env
        (fst (sqlite_setContent example_env empty_sqlite ''marker-plain'' news_input))
        ''marker-plain'' = Inr (Some got1) \<and>
      sqlite_getContent later_env
        (fst (sqlite_setContent later_env
           (fst (sqlite_setContent example_env empty_sqlite ''marker-plain'' news_input))
           ''marker-plain'' news_input))
        ''marker-plain'' = Inr (Some got2) \<and>
      content_input.truncate got1 = news_input \<and> content_input.truncate got2 = news_input \<and>
      updatedAt got1 = TextTime ''2024-03-01 12:00:00'' \<and>
      updatedAt got2 = TextTime ''2024-03-01 12:00:05'' \<and>
      createdAt got1 = TextTime ''2024-03-01 12:00:00'' \<and>
      createdAt got2 = TextTime ''2024-03-01 12:00:00'') \<and>
   length (filter (\<lambda>r. marker_id r = ''marker-plain'')
     (content_table (fst (sqlite_setContent later_env
        (fst (sqlite_setContent example_env empty_sqlite ''marker-plain'' news_input))
        ''marker-plain'' news_input)))) = 1"
proof -
  let ?db1 = "fst (sqlite_setContent example_env empty_sqlite ''marker-plain'' news_input)"
  let ?db2 = "fst (sqlite_setContent later_env ?db1 ''marker-plain'' news_input)"
  have h1: "primary_key_ok empty_sqlite"
    by (simp add: primary_key_ok_def empty_sqlite_def)
  have h2: "codec_ok example_env (style news_input)" "codec_ok later_env (style news_input)"
    by (simp_all add: codec_ok_def news_input_def example_env_def later_env_def
        example_stringify_def example_parse_def example_style_json_def quoted_def)
  have h3: "CURRENT_TIMESTAMP example_env \<le> CURRENT_TIMESTAMP later_env"
    by (simp add: example_env_def later_env_def)
  have h4: "no_empty_strings news_input"
    by (simp add: no_empty_strings_def news_input_def)
  have clocks: "CURRENT_TIMESTAMP example_env = ''2024-03-01 12:00:00''"
      "CURRENT_TIMESTAMP later_env = ''2024-03-01 12:00:05''"
    by (simp_all add: example_env_def later_env_def)
  have empty: "find (\<lambda>r. marker_id r = ''marker-plain'') (content_table empty_sqlite) = None"
    by (simp add: empty_sqlite_def)
  note T = sqlite_setContent_roundtrip[OF h1 h2 h3 refl refl,
      where mid = "''marker-plain''" and other = "''marker-other''"]
  from T obtain got1 got2 u1 u2 where g:
      "sqlite_getContent example_env ?db1 ''marker-plain'' = Inr (Some got1)"
      "sqlite_getContent later_env ?db2 ''marker-plain'' = Inr (Some got2)"
      "content_input.truncate got1 = null_empty_strings news_input"
      "content_input.truncate got2 = null_empty_strings news_input"
      "updatedAt got1 = TextTime u1" "updatedAt got2 = TextTime u2"
      "u1 = CURRENT_TIMESTAMP example_env" "u2 = CURRENT_TIMESTAMP later_env"
      "createdAt got1 =
         TextTime (case find (\<lambda>r. marker_id r = ''marker-plain'') (content_table empty_sqlite) of
                     None \<Rightarrow> CURRENT_TIMESTAMP example_env
                   | Some r \<Rightarrow> created_at r)"
      "createdAt got2 = createdAt got1"
    by blast
  from T h4 have n: "null_empty_strings news_input = news_input" by blast
  from T have one: "length (filter (\<lambda>r. marker_id r = ''marker-plain'') (content_table ?db2)) = 1"
    by blast
  have "content_input.truncate got1 = news_input" "content_input.truncate got2 = news_input"
      "updatedAt got1 = TextTime ''2024-03-01 12:00:00''"
      "updatedAt got2 = TextTime ''2024-03-01 12:00:05''"
      "createdAt got1 = TextTime ''2024-03-01 12:00:00''"
      "createdAt got2 = TextTime ''2024-03-01 12:00:00''"
    using g n clocks empty by simp_all
  with g(1,2) have "\<exists>got1 got2.
      sqlite_getContent example_env ?db1 ''marker-plain'' = Inr (Some got1) \<and>
      sqlite_getContent later_env ?db2 ''marker-plain'' = Inr (Some got2) \<and>
      content_input.truncate got1 = news_input \<and> content_input.truncate got2 = news_input \<and>
      updatedAt got1 = TextTime ''2024-03-01 12:00:00'' \<and>
      updatedAt got2 = TextTime ''2024-03-01 12:00:05'' \<and>
      createdAt got1 = TextTime ''2024-03-01 12:00:00'' \<and>
      createdAt got2 = TextTime ''2024-03-01 12:00:00''"
    by blast
  with h1 h2 h3 h4 one show ?thesis by simp
qed

lemma sqlite_setContent_replaces:
  assumes "codec_ok e (style c)"
  shows "\<exists>got. sqlite_getContent e (fst (sqlite_setContent e db mid c)) mid = Inr (Some got) \<and>
           (title c = None \<longrightarrow> title got = None) \<and>
           (summary c = None \<longrightarrow> summary got = None) \<and>
           (style c = None \<longrightarrow> style got = None) \<and>
           (expiresAt c = None \<longrightarrow> expiresAt got = None)"
proof -
  obtain got where g: "sqlite_getContent e (fst (sqlite_setContent e db mid c)) mid = Inr (Some got)"
      "content_input.truncate got = null_empty_strings c"
    using sqlite_get_after_set[OF assms, where db = db and mid = mid] by blast
  have "title (content_input.truncate got) = title got"
      "summary (content_input.truncate got) = summary got"
      "style (content_input.truncate got) = style got"
      "expiresAt (content_input.truncate got) = expiresAt got"
    by (simp_all add: content_input.defs)
  with g(2) have "title got = or_null (title c)" "summary got = or_null (summary c)"
      "style got = style c" "expiresAt got = or_null (expiresAt c)"
    by (simp_all add: null_empty_strings_def)
  with g(1) show ?thesis
    by (auto simp: or_null_def truthy_str_def)
qed

lemma sqlite_setContent_replaces_example:
  "map_sum id (map_option title)
     (getContent example_env
        (stored (stored (empty_database sqliteAdapter) ''marker-ad'' news_input)
           ''marker-ad'' video_input) ''marker-ad'') = Inr (Some None)"
  by (simp add: stored_def setContent_def sqlite_setContent_def
      empty_database_def upsert_row_def excluded_row_def news_input_def video_input_def
      getContent_def sqlite_getContent_def parseContentRow_def example_env_def or_null_def
      truthy_str_def example_stringify_def example_parse_def example_style_json_def quoted_def)

text \<open>
  C2: \<open>setContent\<close> replaces the record, so a field the input omits is absent afterwards,
  on every adapter. The SQLite adapter does so (\<open>sqlite_setContent_replaces\<close>). The Firebase
  adapter writes with \<open>{ merge: true }\<close>: after a news record, an upsert of a video input
  that has no title, summary, call to action or style leaves all four as they were.
\<close>

theorem firebase_setContent_keeps_omitted_fields:
  "getContent example_env (stored example_firebase_store ''marker-ad'' video_input) ''marker-ad'' =
   Inr (Some \<lparr>type = ''video'', title = Some ''Welcome to PortalAR!'',
      summary = Some ''Point your camera'', url = None,
      videoUrl = Some ''https://example.com/ad.mp4'', posterUrl = None, modelUrl = None,
      imageUrl = None, ctaText = Some ''Learn More'', ctaUrl = None,
      style = Some example_style, expiresAt = None,
      markerId = ''marker-ad'', createdAt = ServerTime 1709294400000,
      updatedAt = ServerTime 1709294400000\<rparr>) \<and>
   title video_input = None \<and> summary video_input = None \<and> ctaText video_input = None \<and>
   style video_input = None"
  by (simp add: example_firebase_store_def stored_def setContent_def firebase_setContent_def
      empty_database_def news_input_def video_input_def getContent_def firebase_getContent_def
      merge_fields_def merge_opt_def merge_style_def example_env_def)

section \<open>Analytics summaries: results\<close>

lemmas eval_defs = summary_after_def event_def view_event_def recordAnalyticsEvent_def
  getAnalyticsSummary_def sqlite_recordAnalyticsEvent_def sqlite_getAnalyticsSummary_def
  summary_query_def sql_avg_def sql_max_def zero_summary_def empty_database_def
  firebase_recordAnalyticsEvent_def firebase_getAnalyticsSummary_def summary_step_def
  or_null_def or_default_def num_or_null_def truthy_str_def truthy_num_def
  example_env_def example_Date_parse_def example_toISOString_def Let_def

text \<open>
  C1: after N \<open>scan\<close> and M \<open>click\<close> events the summary has \<open>totalScans = N\<close> and
  \<open>totalClicks = M\<close>, on every adapter. On the SQLite adapter, with no scan and one click
  (N = 0, M = 1), the summary has \<open>totalClicks = 0\<close>: \<open>getAnalyticsSummary\<close> returns the
  zero summary whenever \<open>total_scans\<close> is 0. The Firebase adapter counts the click
  (\<open>firebase_summary_clicks_without_scans\<close>).
\<close>

theorem sqlite_summary_clicks_without_scans:
  "summary_after example_env (empty_database sqliteAdapter)
     [event ''marker-ad'' ''click'' ''2024-01-01T00:00:00.000Z''] ''marker-ad'' =
   Inr \<lparr>s_markerId = ''marker-ad'', totalScans = 0, totalClicks = 0, avgDuration = 0,
        lastScan = None\<rparr>"
  by (simp add: eval_defs)

lemma firebase_summary_clicks_without_scans:
  "summary_after example_env (empty_database firebaseAdapter)
     [event ''marker-ad'' ''click'' ''2024-01-01T00:00:00.000Z''] ''marker-ad'' =
   Inr \<lparr>s_markerId = ''marker-ad'', totalScans = 0, totalClicks = 1, avgDuration = 0,
        lastScan = None\<rparr>"
  by (simp add: eval_defs)

text \<open>
  C4: \<open>lastScan\<close> is the latest timestamp among the marker's \<open>scan\<close> events, whatever other
  events there are. On the SQLite adapter, a scan in 2024 followed by a click in 2030
  gives the click's timestamp as \<open>lastScan\<close>: the query takes \<open>MAX(timestamp)\<close> over all
  the marker's rows. The Firebase adapter gives the scan's (\<open>firebase_lastScan_example\<close>).
\<close>

theorem sqlite_lastScan_is_last_event:
  "summary_after example_env (empty_database sqliteAdapter)
     [event ''marker-ad'' ''scan'' ''2024-01-01T00:00:00.000Z'',
      event ''marker-ad'' ''click'' ''2030-01-01T00:00:00.000Z''] ''marker-ad'' =
   Inr \<lparr>s_markerId = ''marker-ad'', totalScans = 1, totalClicks = 1, avgDuration = 0,
        lastScan = Some ''2030-01-01T00:00:00.000Z''\<rparr>"
  by (simp add: eval_defs max_def)

lemma firebase_lastScan_example:
  "summary_after example_env (empty_database firebaseAdapter)
     [event ''marker-ad'' ''scan'' ''2024-01-01T00:00:00.000Z'',
      event ''marker-ad'' ''click'' ''2030-01-01T00:00:00.000Z''] ''marker-ad'' =
   Inr \<lparr>s_markerId = ''marker-ad'', totalScans = 1, totalClicks = 1, avgDuration = 0,
        lastScan = Some ''2024-01-01T00:00:00.000Z''\<rparr>"
  by (simp add: eval_defs)

text \<open>
  C9: \<open>avgDuration\<close> is the mean of the durations of the marker's \<open>viewDuration\<close> events,
  those of duration 0 included, and durations 5, 10 and 15 give 10. On the SQLite adapter
  the three events alone give 0, since without a scan the zero summary is returned (with a
  scan they give 10, \<open>sqlite_avgDuration_with_scan\<close>, as they do on the Firebase adapter,
  \<open>firebase_avgDuration_example\<close>); and durations 0 and 10 next to a scan give 10, not 5,
  since \<open>duration || null\<close> stores the 0 as NULL, which \<open>AVG\<close> skips.
\<close>

theorem sqlite_avgDuration_examples:
  "summary_after example_env (empty_database sqliteAdapter)
     [view_event ''marker-ad'' ''2024-01-01T00:00:00.000Z'' 5,
      view_event ''marker-ad'' ''2024-01-01T00:00:00.000Z'' 10,
      view_event ''marker-ad'' ''2024-01-01T00:00:00.000Z'' 15] ''marker-ad'' =
   Inr \<lparr>s_markerId = ''marker-ad'', totalScans = 0, totalClicks = 0, avgDuration = 0,
        lastScan = None\<rparr> \<and>
   summary_after example_env (empty_database sqliteAdapter)
     [event ''marker-ad'' ''scan'' ''2024-01-01T00:00:00.000Z'',
      view_event ''marker-ad'' ''2024-01-01T00:00:00.000Z'' 0,
      view_event ''marker-ad'' ''2024-01-01T00:00:00.000Z'' 10] ''marker-ad'' =
   Inr \<lparr>s_markerId = ''marker-ad'', totalScans = 1, totalClicks = 0, avgDuration = 10,
        lastScan = Some ''2024-01-01T00:00:00.000Z''\<rparr>"
  by (simp add: eval_defs max_def)

lemma sqlite_avgDuration_with_scan:
  "summary_after example_env (empty_database sqliteAdapter)
     [event ''marker-ad'' ''scan'' ''2024-01-01T00:00:00.000Z'',
      view_event ''marker-ad'' ''2024-01-01T00:00:00.000Z'' 5,
      view_event ''marker-ad'' ''2024-01-01T00:00:00.000Z'' 10,
      view_event ''marker-ad'' ''2024-01-01T00:00:00.000Z'' 15] ''marker-ad'' =
   Inr \<lparr>s_markerId = ''marker-ad'', totalScans = 1, totalClicks = 0, avgDuration = 10,
        lastScan = Some ''2024-01-01T00:00:00.000Z''\<rparr>"
  by (simp add: eval_defs max_def)

lemma firebase_avgDuration_example:
  "summary_after example_env (empty_database firebaseAdapter)
     [view_event ''marker-ad'' ''2024-01-01T00:00:00.000Z'' 5,
      view_event ''marker-ad'' ''2024-01-01T00:00:00.000Z'' 10,
      view_event ''marker-ad'' ''2024-01-01T00:00:00.000Z'' 15] ''marker-ad'' =
   Inr \<lparr>s_markerId = ''marker-ad'', totalScans = 0, totalClicks = 0, avgDuration = 10,
        lastScan = None\<rparr>"
  by (simp add: eval_defs)

section \<open>Analytics summaries: what each adapter computes\<close>

lemma sqlite_ingest_counts:
  "\<exists>s'. ingest e (SqliteDb s) evs = Inr (SqliteDb s') \<and>
        count_rows ty mid (analytics_table s') =
          count_rows ty mid (analytics_table s) + count_events ty mid evs"
proof (induction evs arbitrary: s)
  case Nil
  then show ?case by (simp add: count_events_def)
next
  case (Cons ev evs)
  let ?s1 = "fst (sqlite_recordAnalyticsEvent e s ev)"
  have r: "recordAnalyticsEvent e (SqliteDb s) ev = Inr (SqliteDb ?s1)"
    by (simp add: recordAnalyticsEvent_def)
  have c: "count_rows ty mid (analytics_table ?s1) =
             count_rows ty mid (analytics_table s) + count_events ty mid [ev]"
    by (simp add: sqlite_recordAnalyticsEvent_def count_rows_def count_events_def Let_def)
  obtain s' where s': "ingest e (SqliteDb ?s1) evs = Inr (SqliteDb s')"
      "count_rows ty mid (analytics_table s') =
         count_rows ty mid (analytics_table ?s1) + count_events ty mid evs"
    using Cons.IH[of ?s1] by blast
  have "count_events ty mid (ev # evs) = count_events ty mid [ev] + count_events ty mid evs"
    by (simp add: count_events_def)
  with r c s' show ?case by simp
qed

lemma firebase_ingest_counts:
  "ingest e (FirebaseDb f) evs = Inr db' \<Longrightarrow>
   \<exists>f'. db' = FirebaseDb f' \<and>
        count_docs ty mid (analytics_docs f') =
          count_docs ty mid (analytics_docs f) + count_events ty mid evs"
proof (induction evs arbitrary: f)
  case Nil
  then show ?case by (auto simp: count_events_def)
next
  case (Cons ev evs)
  from Cons.prems obtain f1 r where
    r: "firebase_recordAnalyticsEvent e f ev = Inr (f1, r)"
    and rest: "ingest e (FirebaseDb f1) evs = Inr db'"
    by (auto simp: recordAnalyticsEvent_def split: sum.splits)
  have c: "count_docs ty mid (analytics_docs f1) =
             count_docs ty mid (analytics_docs f) + count_events ty mid [ev]"
    using r
    by (auto simp: firebase_recordAnalyticsEvent_def count_docs_def count_events_def Let_def
        split: option.splits)
  obtain f' where f': "db' = FirebaseDb f'"
      "count_docs ty mid (analytics_docs f') =
         count_docs ty mid (analytics_docs f1) + count_events ty mid evs"
    using Cons.IH[OF rest] by blast
  have "count_events ty mid (ev # evs) = count_events ty mid [ev] + count_events ty mid evs"
    by (simp add: count_events_def)
  with c f' show ?case by simp
qed

lemma fold_summary_step_counts:
  "acc_totalScans (fold summary_step ds a) =
     acc_totalScans a + length (filter (\<lambda>d. d_eventType d = ''scan'') ds) \<and>
   acc_totalClicks (fold summary_step ds a) =
     acc_totalClicks a + length (filter (\<lambda>d. d_eventType d = ''click'') ds)"
  by (induction ds arbitrary: a) (simp_all add: summary_step_def)

lemma firebase_summary_counts:
  "totalScans (firebase_getAnalyticsSummary e f mid) = count_docs ''scan'' mid (analytics_docs f) \<and>
   totalClicks (firebase_getAnalyticsSummary e f mid) = count_docs ''click'' mid (analytics_docs f)"
  by (simp add: firebase_getAnalyticsSummary_def Let_def fold_summary_step_counts count_docs_def)

lemma sqlite_summary_counts:
  "totalScans (sqlite_getAnalyticsSummary s mid) = count_rows ''scan'' mid (analytics_table s) \<and>
   totalClicks (sqlite_getAnalyticsSummary s mid) =
     (if count_rows ''scan'' mid (analytics_table s) = 0 then 0
      else count_rows ''click'' mid (analytics_table s))"
  by (auto simp: sqlite_getAnalyticsSummary_def summary_query_def zero_summary_def count_rows_def
      Let_def filter_empty_conv)

lemma Max_insert_max:
  fixes a b :: "'a::linorder"
  assumes "finite S"
  shows "Max (insert (max a b) S) = Max (insert a (insert b S))"
proof (cases "S = {}")
  case True
  then show ?thesis by (simp add: max.commute)
next
  case False
  with assms show ?thesis by (simp add: max.assoc)
qed

lemma fold_summary_step_lastScan_Some:
  "acc_lastScan a = Some m \<Longrightarrow>
   acc_lastScan (fold summary_step ds a) =
     Some (Max (insert m (set (map d_timestamp (filter (\<lambda>d. d_eventType d = ''scan'') ds)))))"
proof (induction ds arbitrary: a m)
  case Nil
  then show ?case by simp
next
  case (Cons d ds)
  show ?case
  proof (cases "d_eventType d = ''scan''")
    case True
    have "acc_lastScan (summary_step d a) = Some (max m (d_timestamp d))"
      using True Cons.prems by (simp add: summary_step_def max_def)
    from Cons.IH[OF this] True show ?thesis
      by (simp add: Max_insert_max del: Max_insert)
  next
    case False
    then have "acc_lastScan (summary_step d a) = Some m"
      using Cons.prems by (simp add: summary_step_def)
    from Cons.IH[OF this] False show ?thesis by simp
  qed
qed

lemma fold_summary_step_lastScan_None:
  "acc_lastScan a = None \<Longrightarrow>
   acc_lastScan (fold summary_step ds a) =
     (let ts = map d_timestamp (filter (\<lambda>d. d_eventType d = ''scan'') ds)
      in if ts = [] then None else Some (Max (set ts)))"
proof (induction ds arbitrary: a)
  case Nil
  then show ?case by simp
next
  case (Cons d ds)
  show ?case
  proof (cases "d_eventType d = ''scan''")
    case True
    have "acc_lastScan (summary_step d a) = Some (d_timestamp d)"
      using True Cons.prems by (simp add: summary_step_def)
    from fold_summary_step_lastScan_Some[OF this, of ds] True show ?thesis
      by (simp add: Let_def)
  next
    case False
    then have "acc_lastScan (summary_step d a) = None"
      using Cons.prems by (simp add: summary_step_def)
    from Cons.IH[OF this] False show ?thesis by simp
  qed
qed

text \<open>
  On the Firebase adapter \<open>lastScan\<close> is the latest timestamp among the marker's scan
  documents, as an ISO string, and null when there is none: what C4 says.
\<close>

theorem firebase_lastScan_is_latest_scan:
  "lastScan (firebase_getAnalyticsSummary e f mid) =
     (if scan_times mid (analytics_docs f) = [] then None
      else or_null (Some (toISOString e (Max (set (scan_times mid (analytics_docs f)))))))"
proof -
  let ?docs = "filter (\<lambda>d. d_markerId d = mid) (analytics_docs f)"
  let ?a0 = "\<lparr>acc_totalScans = 0, acc_totalClicks = 0, acc_totalDuration = 0,
              acc_durationCount = 0, acc_lastScan = None\<rparr>"
  have ts: "map d_timestamp (filter (\<lambda>d. d_eventType d = ''scan'') ?docs) =
          scan_times mid (analytics_docs f)"
    by (simp add: scan_times_def)
  have "acc_lastScan (fold summary_step ?docs ?a0) =
          (if scan_times mid (analytics_docs f) = [] then None
           else Some (Max (set (scan_times mid (analytics_docs f)))))"
    using fold_summary_step_lastScan_None[of ?a0 ?docs] unfolding ts by (simp add: Let_def)
  then show ?thesis
    by (simp add: firebase_getAnalyticsSummary_def Let_def)
qed

lemma sql_max_Max:
  assumes "xs \<noteq> []"
  shows "sql_max xs = Some (Max (set xs))"
proof (cases xs)
  case Nil
  with assms show ?thesis by simp
next
  case (Cons x ys)
  have "fold max ys x = Max (set (x # ys))"
    by (rule Max.set_eq_fold[symmetric])
  with Cons show ?thesis by (simp add: sql_max_def)
qed

text \<open>
  On the SQLite adapter \<open>lastScan\<close> is null when the marker has no scan row, and otherwise
  the greatest timestamp among all the marker's rows, of whatever event type.
\<close>

theorem sqlite_lastScan_is_latest_event:
  "lastScan (sqlite_getAnalyticsSummary s mid) =
     (if count_rows ''scan'' mid (analytics_table s) = 0 then None
      else Some (Max (set (marker_timestamps mid (analytics_table s)))))"
proof (cases "count_rows ''scan'' mid (analytics_table s) = 0")
  case True
  then show ?thesis
    by (auto simp: sqlite_getAnalyticsSummary_def summary_query_def zero_summary_def
        count_rows_def Let_def filter_empty_conv)
next
  case False
  then have ne: "filter (\<lambda>r. a_marker_id r = mid) (analytics_table s) \<noteq> []"
    by (auto simp: count_rows_def filter_empty_conv)
  then have "marker_timestamps mid (analytics_table s) \<noteq> []"
    by (simp add: marker_timestamps_def)
  then have "sql_max (marker_timestamps mid (analytics_table s)) =
               Some (Max (set (marker_timestamps mid (analytics_table s))))"
    by (rule sql_max_Max)
  with False ne show ?thesis
    by (simp add: sqlite_getAnalyticsSummary_def summary_query_def count_rows_def Let_def
        marker_timestamps_def)
qed

text \<open>
  On the SQLite adapter, ingesting into an empty database always succeeds, and then
  \<open>totalScans\<close> is the number of the marker's scan events; \<open>totalClicks\<close> is the number
  of its click events when there is a scan among them, and 0 when there is none.
\<close>

theorem sqlite_counts_after_ingest:
  "\<exists>s. summary_after e (empty_database sqliteAdapter) evs mid = Inr s \<and>
       totalScans s = count_events ''scan'' mid evs \<and>
       totalClicks s =
         (if count_events ''scan'' mid evs = 0 then 0 else count_events ''click'' mid evs)"
proof -
  let ?s0 = "\<lparr>content_table = [], analytics_table = [], sqlite_sequence = 0\<rparr>"
  obtain s1 where s1: "ingest e (SqliteDb ?s0) evs = Inr (SqliteDb s1)"
      "count_rows ''scan'' mid (analytics_table s1) =
         count_rows ''scan'' mid (analytics_table ?s0) + count_events ''scan'' mid evs"
    using sqlite_ingest_counts[of e ?s0 evs "''scan''" mid] by blast
  obtain s2 where s2: "ingest e (SqliteDb ?s0) evs = Inr (SqliteDb s2)"
      "count_rows ''click'' mid (analytics_table s2) =
         count_rows ''click'' mid (analytics_table ?s0) + count_events ''click'' mid evs"
    using sqlite_ingest_counts[of e ?s0 evs "''click''" mid] by blast
  have eq: "s2 = s1" using s1(1) s2(1) by simp
  have "summary_after e (empty_database sqliteAdapter) evs mid =
          Inr (sqlite_getAnalyticsSummary s1 mid)"
    using s1(1) by (simp add: summary_after_def empty_database_def getAnalyticsSummary_def)
  moreover have "count_rows ''scan'' mid (analytics_table s1) = count_events ''scan'' mid evs"
      "count_rows ''click'' mid (analytics_table s1) = count_events ''click'' mid evs"
    using s1(2) s2(2) eq by (simp_all add: count_rows_def)
  ultimately show ?thesis
    using sqlite_summary_counts[of s1 mid] by simp
qed

text \<open>
  On the Firebase adapter, once the events are ingested into an empty store,
  \<open>totalScans\<close> and \<open>totalClicks\<close> are the numbers of the marker's scan and click events:
  what C1 says.
\<close>

theorem firebase_counts_after_ingest:
  assumes "summary_after e (empty_database firebaseAdapter) evs mid = Inr s"
  shows "totalScans s = count_events ''scan'' mid evs \<and>
         totalClicks s = count_events ''click'' mid evs"
proof -
  let ?f0 = "\<lparr>content_docs = Map.empty, analytics_docs = []\<rparr>"
  from assms obtain db' where db': "ingest e (FirebaseDb ?f0) evs = Inr db'"
      "getAnalyticsSummary e db' mid = Inr s"
    by (auto simp: summary_after_def empty_database_def split: sum.splits)
  obtain f1 where f1: "db' = FirebaseDb f1"
      "count_docs ''scan'' mid (analytics_docs f1) =
         count_docs ''scan'' mid (analytics_docs ?f0) + count_events ''scan'' mid evs"
    using firebase_ingest_counts[OF db'(1), of "''scan''" mid] by blast
  obtain f2 where f2: "db' = FirebaseDb f2"
      "count_docs ''click'' mid (analytics_docs f2) =
         count_docs ''click'' mid (analytics_docs ?f0) + count_events ''click'' mid evs"
    using firebase_ingest_counts[OF db'(1), of "''click''" mid] by blast
  have eq: "f2 = f1" using f1(1) f2(1) by simp
  have "s = firebase_getAnalyticsSummary e f1 mid"
    using db'(2) f1(1) by (simp add: getAnalyticsSummary_def)
  moreover have "count_docs ''scan'' mid (analytics_docs f1) = count_events ''scan'' mid evs"
      "count_docs ''click'' mid (analytics_docs f1) = count_events ''click'' mid evs"
    using f1(2) f2(2) eq by (simp_all add: count_docs_def)
  ultimately show ?thesis
    using firebase_summary_counts[of e f1 mid] by simp
qed

theorem firebase_counts_after_ingest_witness:
  "summary_after example_env (empty_database firebaseAdapter)
     [event ''marker-ad'' ''click'' ''2024-01-01T00:00:00.000Z'',
      event ''marker-ad'' ''scan'' ''2024-01-01T00:00:00.000Z'',
      event ''marker-ad'' ''click'' ''2030-01-01T00:00:00.000Z''] ''marker-ad'' =
     Inr \<lparr>s_markerId = ''marker-ad'', totalScans = 1, totalClicks = 2, avgDuration = 0,
          lastScan = Some ''2024-01-01T00:00:00.000Z''\<rparr> \<and>
   count_events ''scan'' ''marker-ad''
     [event ''marker-ad'' ''click'' ''2024-01-01T00:00:00.000Z'',
      event ''marker-ad'' ''scan'' ''2024-01-01T00:00:00.000Z'',
      event ''marker-ad'' ''click'' ''2030-01-01T00:00:00.000Z''] = 1 \<and>
   count_events ''click'' ''marker-ad''
     [event ''marker-ad'' ''click'' ''2024-01-01T00:00:00.000Z'',
      event ''marker-ad'' ''scan'' ''2024-01-01T00:00:00.000Z'',
      event ''marker-ad'' ''click'' ''2030-01-01T00:00:00.000Z''] = 2"
proof -
  have ev: "summary_after example_env (empty_database firebaseAdapter)
     [event ''marker-ad'' ''click'' ''2024-01-01T00:00:00.000Z'',
      event ''marker-ad'' ''scan'' ''2024-01-01T00:00:00.000Z'',
      event ''marker-ad'' ''click'' ''2030-01-01T00:00:00.000Z''] ''marker-ad'' =
     Inr \<lparr>s_markerId = ''marker-ad'', totalScans = 1, totalClicks = 2, avgDuration = 0,
          lastScan = Some ''2024-01-01T00:00:00.000Z''\<rparr>"
    by (simp add: eval_defs)
  from firebase_counts_after_ingest[OF ev] ev show ?thesis by simp
qed

section \<open>The placeholder adapter, and what the adapters agree on\<close>

text \<open>
  The PostgreSQL adapter is a placeholder: selecting it makes \<open>initialize\<close> fail, and
  every operation forwarded to it throws the same error, which the error handler answers
  with status 500.
\<close>

theorem postgres_adapter_not_implemented:
  "initialize (Some ''postgres'') reachable = (postgresAdapter, Some PostgresNotImplemented) \<and>
   empty_database postgresAdapter = PostgresDb \<and>
   getContent e PostgresDb mid = Inl notImplemented \<and>
   setContent e PostgresDb mid c = Inl notImplemented \<and>
   deleteContent PostgresDb mid = Inl notImplemented \<and>
   recordAnalyticsEvent e PostgresDb ev = Inl notImplemented \<and>
   getAnalyticsSummary e PostgresDb mid = Inl notImplemented \<and>
   status (errorHandler production notImplemented) = 500"
  by (simp add: initialize_def select_adapter_def adapter_initialize_def or_default_def
      empty_database_def getContent_def setContent_def deleteContent_def
      recordAnalyticsEvent_def getAnalyticsSummary_def notImplemented_def
      errorHandler_Error_status)

text \<open>
  On the SQLite adapter \<open>deleteContent\<close> reports \<open>deleted\<close> exactly when a row for the
  marker existed.
\<close>

theorem sqlite_deleteContent_reports_existence:
  "snd (sqlite_deleteContent s mid) = (find (\<lambda>r. marker_id r = mid) (content_table s) \<noteq> None)"
  by (simp add: sqlite_deleteContent_def Let_def find_filter_None)

text \<open>
  On every adapter, when \<open>deleteContent\<close> returns, \<open>getContent\<close> for the same marker
  finds nothing (the second half of C5).
\<close>

theorem delete_then_get_not_found:
  assumes "deleteContent db mid = Inr (db', deleted)"
  shows "getContent e db' mid = Inr None"
proof (cases db)
  case (SqliteDb s)
  with assms have "db' = SqliteDb (fst (sqlite_deleteContent s mid))"
    by (auto simp: deleteContent_def split: prod.splits)
  then show ?thesis by (simp add: getContent_def sqlite_delete_then_get)
next
  case (FirebaseDb f)
  with assms have "db' = FirebaseDb (fst (firebase_deleteContent f mid))"
    by (auto simp: deleteContent_def split: prod.splits)
  then show ?thesis by (simp add: getContent_def firebase_delete_then_get)
next
  case PostgresDb
  with assms show ?thesis by (simp add: deleteContent_def)
qed

theorem delete_then_get_not_found_witness:
  "deleteContent example_sqlite_store ''marker-old'' =
     Inr (stored (stored (empty_database sqliteAdapter)
        ''marker-live'' (news_input\<lparr>expiresAt := Some ''2030-01-01T00:00:00.000Z''\<rparr>))
        ''marker-plain'' news_input, True) \<and>
   getContent example_env (stored (stored (empty_database sqliteAdapter)
        ''marker-live'' (news_input\<lparr>expiresAt := Some ''2030-01-01T00:00:00.000Z''\<rparr>))
        ''marker-plain'' news_input) ''marker-old'' = Inr None"
proof -
  have d: "deleteContent example_sqlite_store ''marker-old'' =
     Inr (stored (stored (empty_database sqliteAdapter)
        ''marker-live'' (news_input\<lparr>expiresAt := Some ''2030-01-01T00:00:00.000Z''\<rparr>))
        ''marker-plain'' news_input, True)"
    by (simp add: example_sqlite_store_def stored_def setContent_def sqlite_setContent_def
      empty_database_def upsert_row_def excluded_row_def deleteContent_def
      sqlite_deleteContent_def Let_def)
  from delete_then_get_not_found[OF d, of example_env] d show ?thesis by simp
qed

text \<open>The replace semantics of the SQLite adapter, on the two upserts of C2.\<close>

theorem sqlite_setContent_replaces_witness:
  "codec_ok example_env (style video_input) \<and>
   (\<exists>got. sqlite_getContent example_env
            (fst (sqlite_setContent example_env
               (fst (sqlite_setContent example_env empty_sqlite ''marker-ad'' news_input))
               ''marker-ad'' video_input)) ''marker-ad'' = Inr (Some got) \<and>
          title got = None \<and> summary got = None \<and> style got = None \<and> expiresAt got = None)"
proof -
  have h: "codec_ok example_env (style video_input)"
    by (simp add: codec_ok_def video_input_def)
  have n: "title video_input = None" "summary video_input = None" "style video_input = None"
      "expiresAt video_input = None"
    by (simp_all add: video_input_def)
  from sqlite_setContent_replaces[OF h,
      of "fst (sqlite_setContent example_env empty_sqlite ''marker-ad'' news_input)" "''marker-ad''"]
    h n show ?thesis by simp
qed

end
